theory Spec2Isabelle
  imports Main "HOL-Library.Word"
begin

unbundle bit_operations_syntax

section \<open>Data model\<close>

text \<open>
  The development embeds \<^verbatim>\<open>deb/deb.go\<close>: \<^verbatim>\<open>Package\<close>, \<^verbatim>\<open>addArFile\<close>,
  \<^verbatim>\<open>createDataTarGz\<close>, \<^verbatim>\<open>controlTemplate\<close> and \<^verbatim>\<open>createControl\<close>.
  Go strings and byte slices are \<open>string\<close> (a list of 8-bit characters), \<^verbatim>\<open>time.Time\<close> is
  an instant counted in nanoseconds since the Unix epoch, \<^verbatim>\<open>int64\<close> is \<open>int\<close> with the wrap-around written out where the
  code adds. An \<^verbatim>\<open>error\<close> value is its message; a run-time panic is kept apart from it.
\<close>

type_synonym time = int

datatype error = Error string | Panic string

definition nl :: char where
  "nl = CHR 0x0A"

text \<open>
  Modelled from the spec: the types \<^verbatim>\<open>pkg.File\<close> and \<^verbatim>\<open>pkg.Info\<close> of the repository's
  root package, which \<^verbatim>\<open>deb.go\<close> imports and which is not among the sources. A file entry
  is a pair of a source path and a destination path; the package information has the
  string fields the control template prints, \<open>Depends\<close> and \<open>Conflicts\<close> being sequences.
\<close>

record File =
  Src :: string
  Dst :: string

record Info =
  Name :: string
  Arch :: string
  Version :: string
  Section :: string
  Priority :: string
  Replaces :: string
  Provides :: string
  Depends :: "string list"
  Conflicts :: "string list"
  Maintainer :: string
  Description :: string
  Vendor :: string
  Homepage :: string

subsection \<open>The operating system: \<^verbatim>\<open>os.Open\<close>, \<^verbatim>\<open>f.Stat\<close>, reading\<close>

text \<open>
  \<^verbatim>\<open>os.FileInfo\<close> with the three methods the code calls. An open file is what the code can
  observe of it: the result of \<^verbatim>\<open>Stat\<close>, the bytes between the current offset and the point
  where reading stops, and whether reading stops with an error or at end of file.
\<close>

record FileInfo =
  fi_Size :: int
  fi_Mode :: int
  fi_IsDir :: bool

record os_File =
  f_Stat :: "string + FileInfo"
  f_data :: string
  f_read_err :: "string option"

subsection \<open>\<^verbatim>\<open>archive/tar\<close>\<close>

record tar_Header =
  tar_Name :: string
  tar_Size :: int
  tar_Mode :: int
  tar_ModTime :: time
  tar_Typeflag :: char

record tar_entry =
  te_hdr :: tar_Header
  te_body :: string

text \<open>
  The writer holds the entries written so far (the last one is the current file) and the
  number of bytes the current file still has to receive.
\<close>

record tar_Writer =
  tw_entries :: "tar_entry list"
  tw_nb :: int

definition tar_TypeReg :: char where
  "tar_TypeReg = CHR ''0''"

subsection \<open>\<^verbatim>\<open>github.com/blakesmith/ar\<close>\<close>

record ar_Header =
  ar_Name :: string
  ar_Size :: int
  ar_Mode :: int
  ar_ModTime :: time

datatype ar_item = ArGlobalHeader | ArHeader ar_Header | ArData string

record ar_Writer =
  ar_items :: "ar_item list"

subsection \<open>The environment of a build\<close>

text \<open>
  Everything the code reads from outside itself: the clock, the file system, the header
  validation of the tar library, the serialisation of a closed tar stream through gzip
  into the in-memory buffer, and the failures of the destination \<^verbatim>\<open>io.Writer\<close> (given what
  has been written and the item being written).
\<close>

record env =
  time_Now :: time
  os_Open :: "string \<Rightarrow> string + os_File"
  tar_hdr_err :: "tar_Header \<Rightarrow> string option"
  targz_bytes :: "tar_entry list \<Rightarrow> string"
  deb_err :: "ar_item list \<Rightarrow> ar_item \<Rightarrow> string option"

section \<open>Library operations\<close>

text \<open>
  The Go standard library and the ar package are not part of the sources. Their
  operations are modelled after their documented behaviour, at the level the code uses
  them: a tar or ar writer is the sequence of headers and bodies written to it, and
  every call whose error the code inspects can fail.
\<close>

subsection \<open>\<^verbatim>\<open>time\<close>\<close>



subsection \<open>Integers and formatting\<close>

definition int64 :: "int \<Rightarrow> int" where
  "int64 x = (x + 2 ^ 63) mod 2 ^ 64 - 2 ^ 63"

text \<open>Go's integer division truncates towards zero.\<close>

definition go_div :: "int \<Rightarrow> int \<Rightarrow> int" where
  "go_div x y = sgn x * sgn y * (\<bar>x\<bar> div \<bar>y\<bar>)"

definition digit :: "nat \<Rightarrow> char" where
  "digit n = ''0123456789abcdef'' ! n"

fun fmt_nat :: "nat \<Rightarrow> string" where
  "fmt_nat n = (if n < 10 then [digit n] else fmt_nat (n div 10) @ [digit (n mod 10)])"

declare fmt_nat.simps [simp del]

definition fmt_int :: "int \<Rightarrow> string" where
  "fmt_int i = (if i < 0 then CHR ''-'' # fmt_nat (nat (- i)) else fmt_nat (nat i))"

text \<open>The verb \<^verbatim>\<open>%x\<close> on a byte slice: two lower-case hexadecimal digits per byte.\<close>

definition fmt_hex :: "string \<Rightarrow> string" where
  "fmt_hex bs = concat (map (\<lambda>c. [digit (of_char c div 16), digit (of_char c mod 16)]) bs)"

text \<open>\<^verbatim>\<open>s[n:]\<close> panics when \<open>n\<close> exceeds the length of \<open>s\<close>.\<close>

definition slice_from :: "string \<Rightarrow> nat \<Rightarrow> string option" where
  "slice_from s n = (if n \<le> length s then Some (drop n s) else None)"

fun strings_Join :: "string list \<Rightarrow> string \<Rightarrow> string" where
  "strings_Join [] sep = []"
| "strings_Join [s] sep = s"
| "strings_Join (s # t # ss) sep = s @ sep @ strings_Join (t # ss) sep"

definition strings_Trim :: "string \<Rightarrow> string \<Rightarrow> string" where
  "strings_Trim s cutset =
     rev (dropWhile (\<lambda>c. c \<in> set cutset) (rev (dropWhile (\<lambda>c. c \<in> set cutset) s)))"

subsection \<open>\<^verbatim>\<open>crypto/md5\<close> (RFC 1321)\<close>

definition md5_s :: "nat list" where
  "md5_s = [7, 12, 17, 22, 7, 12, 17, 22, 7, 12, 17, 22, 7, 12, 17, 22,
            5, 9, 14, 20, 5, 9, 14, 20, 5, 9, 14, 20, 5, 9, 14, 20,
            4, 11, 16, 23, 4, 11, 16, 23, 4, 11, 16, 23, 4, 11, 16, 23,
            6, 10, 15, 21, 6, 10, 15, 21, 6, 10, 15, 21, 6, 10, 15, 21]"

definition md5_K :: "32 word list" where
  "md5_K = [0xd76aa478, 0xe8c7b756, 0x242070db, 0xc1bdceee,
            0xf57c0faf, 0x4787c62a, 0xa8304613, 0xfd469501,
            0x698098d8, 0x8b44f7af, 0xffff5bb1, 0x895cd7be,
            0x6b901122, 0xfd987193, 0xa679438e, 0x49b40821,
            0xf61e2562, 0xc040b340, 0x265e5a51, 0xe9b6c7aa,
            0xd62f105d, 0x02441453, 0xd8a1e681, 0xe7d3fbc8,
            0x21e1cde6, 0xc33707d6, 0xf4d50d87, 0x455a14ed,
            0xa9e3e905, 0xfcefa3f8, 0x676f02d9, 0x8d2a4c8a,
            0xfffa3942, 0x8771f681, 0x6d9d6122, 0xfde5380c,
            0xa4beea44, 0x4bdecfa9, 0xf6bb4b60, 0xbebfbc70,
            0x289b7ec6, 0xeaa127fa, 0xd4ef3085, 0x04881d05,
            0xd9d4d039, 0xe6db99e5, 0x1fa27cf8, 0xc4ac5665,
            0xf4292244, 0x432aff97, 0xab9423a7, 0xfc93a039,
            0x655b59c3, 0x8f0ccc92, 0xffeff47d, 0x85845dd1,
            0x6fa87e4f, 0xfe2ce6e0, 0xa3014314, 0x4e0811a1,
            0xf7537e82, 0xbd3af235, 0x2ad7d2bb, 0xeb86d391]"

definition rotl32 :: "32 word \<Rightarrow> nat \<Rightarrow> 32 word" where
  "rotl32 x n = push_bit n x OR drop_bit (32 - n) x"

type_synonym md5_state = "32 word \<times> 32 word \<times> 32 word \<times> 32 word"

definition md5_round :: "32 word list \<Rightarrow> md5_state \<Rightarrow> nat \<Rightarrow> md5_state" where
  "md5_round M st i = (case st of (a, b, c, d) \<Rightarrow>
     let (f, g) =
        (if i < 16 then ((b AND c) OR (NOT b AND d), i)
         else if i < 32 then ((d AND b) OR (NOT d AND c), (5 * i + 1) mod 16)
         else if i < 48 then (b XOR c XOR d, (3 * i + 5) mod 16)
         else (c XOR (b OR NOT d), (7 * i) mod 16));
       f' = f + a + md5_K ! i + M ! g
     in (d, b + rotl32 f' (md5_s ! i), b, c))"

fun le_word :: "string \<Rightarrow> 32 word" where
  "le_word [] = 0"
| "le_word (c # cs) = of_char c + push_bit 8 (le_word cs)"

fun chunks :: "nat \<Rightarrow> 'a list \<Rightarrow> 'a list list" where
  "chunks n [] = []"
| "chunks n xs = (if n = 0 then [xs] else take n xs # chunks n (drop n xs))"

definition md5_block :: "md5_state \<Rightarrow> string \<Rightarrow> md5_state" where
  "md5_block st blk = (case st of (a0, b0, c0, d0) \<Rightarrow>
     case foldl (md5_round (map le_word (chunks 4 blk))) st [0..<64] of
       (a, b, c, d) \<Rightarrow> (a0 + a, b0 + b, c0 + c, d0 + d))"

fun le_bytes :: "nat \<Rightarrow> int \<Rightarrow> string" where
  "le_bytes 0 v = []"
| "le_bytes (Suc n) v = char_of v # le_bytes n (drop_bit 8 v)"

definition md5_pad :: "string \<Rightarrow> string" where
  "md5_pad m = m @ [char_of (128 :: int)]
     @ replicate ((119 - length m mod 64) mod 64) (char_of (0 :: int))
     @ le_bytes 8 (8 * int (length m))"

text \<open>The digest of everything written to a hash created by \<^verbatim>\<open>md5.New()\<close>.\<close>

definition md5_digest :: "string \<Rightarrow> string" where
  "md5_digest m =
     (case foldl md5_block (0x67452301, 0xefcdab89, 0x98badcfe, 0x10325476)
             (chunks 64 (md5_pad m)) of
        (a, b, c, d) \<Rightarrow> concat (map (\<lambda>w. le_bytes 4 (uint w)) [a, b, c, d]))"

text \<open>\<^verbatim>\<open>digest.Sum(b)\<close> appends the digest of the bytes written so far to \<open>b\<close>.\<close>

definition md5_Sum :: "string \<Rightarrow> string \<Rightarrow> string" where
  "md5_Sum written b = b @ md5_digest written"

subsection \<open>The tar writer\<close>

definition tar_NewWriter :: tar_Writer where
  "tar_NewWriter = \<lparr>tw_entries = [], tw_nb = 0\<rparr>"

definition tar_missed :: "int \<Rightarrow> string" where
  "tar_missed n = ''archive/tar: missed writing '' @ fmt_int n @ '' bytes''"

text \<open>
  \<^verbatim>\<open>WriteHeader\<close> fails when the current file is not fully written or the header cannot
  be encoded; otherwise it starts a new entry that accepts \<open>tar_Size\<close> bytes.
\<close>

definition tar_WriteHeader :: "env \<Rightarrow> tar_Header \<Rightarrow> tar_Writer \<Rightarrow> string + tar_Writer" where
  "tar_WriteHeader E h w =
     (if 0 < tw_nb w then Inl (tar_missed (tw_nb w))
      else case tar_hdr_err E h of
        Some e \<Rightarrow> Inl e
      | None \<Rightarrow> Inr \<lparr>tw_entries = tw_entries w @ [\<lparr>te_hdr = h, te_body = []\<rparr>],
                     tw_nb = tar_Size h\<rparr>)"

text \<open>\<^verbatim>\<open>Write\<close> fails with \<^verbatim>\<open>ErrWriteTooLong\<close> beyond the size the header announced.\<close>

fun append_body :: "tar_entry list \<Rightarrow> string \<Rightarrow> tar_entry list" where
  "append_body [] b = []"
| "append_body [e] b = [e\<lparr>te_body := te_body e @ b\<rparr>]"
| "append_body (e # es) b = e # append_body es b"

definition tar_Write :: "tar_Writer \<Rightarrow> string \<Rightarrow> string + tar_Writer" where
  "tar_Write w b =
     (if tw_nb w < int (length b) then Inl ''archive/tar: write too long''
      else Inr \<lparr>tw_entries = append_body (tw_entries w) b, tw_nb = tw_nb w - int (length b)\<rparr>)"

definition tar_Close :: "tar_Writer \<Rightarrow> string + tar_Writer" where
  "tar_Close w = (if 0 < tw_nb w then Inl (tar_missed (tw_nb w)) else Inr w)"

text \<open>
  \<^verbatim>\<open>io.Copy(out, f)\<close>: every byte the file yields from its current offset goes to the
  writer (no \<^verbatim>\<open>Write\<close> happens when there is none); a failed write ends the copy before the
  read that would have failed; the file is left at its end.
\<close>

definition io_Copy :: "tar_Writer \<Rightarrow> os_File \<Rightarrow> string + (tar_Writer \<times> os_File)" where
  "io_Copy out f =
     (case (if f_data f = [] then Inr out else tar_Write out (f_data f)) of
        Inl e \<Rightarrow> Inl e
      | Inr out' \<Rightarrow>
          (case f_read_err f of
             Some e \<Rightarrow> Inl e
           | None \<Rightarrow> Inr (out', f\<lparr>f_data := []\<rparr>)))"

text \<open>
  \<^verbatim>\<open>io.Copy(out, io.TeeReader(f, digest))\<close>: the same copy, the hash receiving what is
  read. The hash is represented by the bytes written to it.
\<close>

definition io_Copy_Tee ::
  "tar_Writer \<Rightarrow> os_File \<Rightarrow> string \<Rightarrow> string + (tar_Writer \<times> os_File \<times> string)" where
  "io_Copy_Tee out f digest =
     (case io_Copy out f of
        Inl e \<Rightarrow> Inl e
      | Inr (out', f') \<Rightarrow> Inr (out', f', digest @ f_data f))"

subsection \<open>The ar writer\<close>

definition ar_NewWriter :: ar_Writer where
  "ar_NewWriter = \<lparr>ar_items = []\<rparr>"

definition ar_put :: "env \<Rightarrow> ar_item \<Rightarrow> ar_Writer \<Rightarrow> string + ar_Writer" where
  "ar_put E x w =
     (case deb_err E (ar_items w) x of
        Some e \<Rightarrow> Inl e
      | None \<Rightarrow> Inr \<lparr>ar_items = ar_items w @ [x]\<rparr>)"

definition ar_WriteGlobalHeader :: "env \<Rightarrow> ar_Writer \<Rightarrow> string + ar_Writer" where
  "ar_WriteGlobalHeader E w = ar_put E ArGlobalHeader w"

definition ar_WriteHeader :: "env \<Rightarrow> ar_Header \<Rightarrow> ar_Writer \<Rightarrow> string + ar_Writer" where
  "ar_WriteHeader E h w = ar_put E (ArHeader h) w"

definition ar_Write :: "env \<Rightarrow> string \<Rightarrow> ar_Writer \<Rightarrow> string + ar_Writer" where
  "ar_Write E b w = ar_put E (ArData b) w"

subsection \<open>The timestamp a header is written with\<close>




section \<open>The data archive: \<^verbatim>\<open>createDataTarGz\<close>\<close>

type_synonym data_state = "tar_Writer \<times> string \<times> int"

text \<open>
  The body of the loop over \<open>files\<close>, on the state \<open>(out, md5buf, instSize)\<close>. A failed
  \<^verbatim>\<open>Stat\<close> and a directory both \<^verbatim>\<open>continue\<close>.
\<close>

definition dataFile :: "env \<Rightarrow> time \<Rightarrow> File \<Rightarrow> data_state \<Rightarrow> error + data_state" where
  "dataFile E now file st = (case st of (out, md5buf, instSize) \<Rightarrow>
     (case os_Open E (Src file) of
        Inl err \<Rightarrow> Inl (Error (''cannot open '' @ Src file @ '': '' @ err))
      | Inr f \<Rightarrow>
     (case f_Stat f of
        Inl err \<Rightarrow> Inr st
      | Inr info \<Rightarrow>
     if fi_IsDir info then Inr st
     else
       let instSize' = int64 (instSize + fi_Size info);
           header = \<lparr>tar_Name = Dst file, tar_Size = fi_Size info, tar_Mode = fi_Mode info,
                     tar_ModTime = now, tar_Typeflag = CHR 0x00\<rparr>
       in
     (case tar_WriteHeader E header out of
        Inl err \<Rightarrow> Inl (Error (''cannot write header of '' @ tar_Name header
                                  @ '' to data.tar.gz: '' @ err))
      | Inr out1 \<Rightarrow>
     (case io_Copy out1 f of
        Inl err \<Rightarrow> Inl (Error (''cannot write '' @ tar_Name header
                                  @ '' to data.tar.gz: '' @ err))
      | Inr (out2, f2) \<Rightarrow>
     (case io_Copy_Tee out2 f2 [] of
        Inl err \<Rightarrow> Inl (Error err)
      | Inr (out3, f3, digest) \<Rightarrow>
     (case slice_from (tar_Name header) 2 of
        None \<Rightarrow> Inl (Panic ''runtime error: slice bounds out of range'')
      | Some rel \<Rightarrow>
          Inr (out3, md5buf @ fmt_hex (md5_Sum digest []) @ ''  '' @ rel @ [nl],
               instSize'))))))))"

fun dataLoop :: "env \<Rightarrow> time \<Rightarrow> File list \<Rightarrow> data_state \<Rightarrow> error + data_state" where
  "dataLoop E now [] st = Inr st"
| "dataLoop E now (file # files) st =
     (case dataFile E now file st of
        Inl e \<Rightarrow> Inl e
      | Inr st' \<Rightarrow> dataLoop E now files st')"

text \<open>The loop followed by \<^verbatim>\<open>out.Close()\<close>: the closed tar writer, the ledger, the size.\<close>

definition dataTarWriter :: "env \<Rightarrow> time \<Rightarrow> File list \<Rightarrow> error + data_state" where
  "dataTarWriter E now files =
     (case dataLoop E now files (tar_NewWriter, [], 0) of
        Inl e \<Rightarrow> Inl e
      | Inr (out, md5buf, instSize) \<Rightarrow>
          (case tar_Close out of
             Inl err \<Rightarrow> Inl (Error (''closing data.tar.gz: '' @ err))
           | Inr out' \<Rightarrow> Inr (out', md5buf, instSize)))"

text \<open>
  \<^verbatim>\<open>compress.Close()\<close> writes into a \<^verbatim>\<open>bytes.Buffer\<close> and cannot fail; \<^verbatim>\<open>buf.Bytes()\<close>
  is the gzip stream of the closed tar stream.
\<close>

definition createDataTarGz :: "env \<Rightarrow> time \<Rightarrow> File list \<Rightarrow> error + (string \<times> string \<times> int)" where
  "createDataTarGz E now files =
     (case dataTarWriter E now files of
        Inl e \<Rightarrow> Inl e
      | Inr (out, md5buf, instSize) \<Rightarrow>
          Inr (targz_bytes E (tw_entries out), md5buf, instSize))"

section \<open>The control archive: \<^verbatim>\<open>controlTemplate\<close> and \<^verbatim>\<open>createControl\<close>\<close>

record controlData =
  cd_Info :: Info
  cd_InstalledSize :: int

text \<open>The template function \<^verbatim>\<open>join\<close>.\<close>

definition join :: "string list \<Rightarrow> string" where
  "join strs = strings_Trim (strings_Join strs '', '') '' ''"

text \<open>Executing \<^verbatim>\<open>controlTemplate\<close> on a \<^verbatim>\<open>controlData\<close>.\<close>

definition controlTemplate :: "controlData \<Rightarrow> string" where
  "controlTemplate d =
     ''Package: '' @ Name (cd_Info d) @ [nl] @
     ''Version: '' @ Version (cd_Info d) @ [nl] @
     ''Section: '' @ Section (cd_Info d) @ [nl] @
     ''Priority: '' @ Priority (cd_Info d) @ [nl] @
     ''Architecture: '' @ Arch (cd_Info d) @ [nl] @
     ''Maintainer: '' @ Maintainer (cd_Info d) @ [nl] @
     ''Vendor: '' @ Vendor (cd_Info d) @ [nl] @
     ''Installed-Size: '' @ fmt_int (cd_InstalledSize d) @ [nl] @
     ''Replaces: '' @ Replaces (cd_Info d) @ [nl] @
     ''Provides: '' @ Provides (cd_Info d) @ [nl] @
     ''Depends: '' @ join (Depends (cd_Info d)) @ [nl] @
     ''Conflicts: '' @ join (Conflicts (cd_Info d)) @ [nl] @
     ''Homepage: '' @ Homepage (cd_Info d) @ [nl] @
     ''Description: '' @ Description (cd_Info d) @ [nl]"

text \<open>
  \<^verbatim>\<open>Execute\<close> writes into a \<^verbatim>\<open>bytes.Buffer\<close>; the template is constant, parses, and only
  reads fields of the types it expects, so the call returns no error.
\<close>

definition template_Execute :: "controlData \<Rightarrow> string + string" where
  "template_Execute d = Inr (controlTemplate d)"

definition controlTarWriter ::
  "env \<Rightarrow> time \<Rightarrow> int \<Rightarrow> string \<Rightarrow> Info \<Rightarrow> error + tar_Writer" where
  "controlTarWriter E now instSize md5sums info =
     (case template_Execute \<lparr>cd_Info = info, cd_InstalledSize = go_div instSize 1024\<rparr> of
        Inl err \<Rightarrow> Inl (Error err)
      | Inr body \<Rightarrow>
     (case tar_WriteHeader E \<lparr>tar_Name = ''control'', tar_Size = int (length body),
              tar_Mode = 420, tar_ModTime = now, tar_Typeflag = tar_TypeReg\<rparr> tar_NewWriter of
        Inl err \<Rightarrow> Inl (Error (''cannot write header of control file to control.tar.gz: '' @ err))
      | Inr out1 \<Rightarrow>
     (case tar_Write out1 body of
        Inl err \<Rightarrow> Inl (Error (''cannot write control file to control.tar.gz: '' @ err))
      | Inr out2 \<Rightarrow>
     (case tar_WriteHeader E \<lparr>tar_Name = ''md5sums'', tar_Size = int (length md5sums),
              tar_Mode = 420, tar_ModTime = now, tar_Typeflag = tar_TypeReg\<rparr> out2 of
        Inl err \<Rightarrow> Inl (Error (''cannot write header of md5sums file to control.tar.gz: '' @ err))
      | Inr out3 \<Rightarrow>
     (case tar_Write out3 md5sums of
        Inl err \<Rightarrow> Inl (Error (''cannot write md5sums file to control.tar.gz: '' @ err))
      | Inr out4 \<Rightarrow>
     (case tar_Close out4 of
        Inl err \<Rightarrow> Inl (Error (''closing control.tar.gz: '' @ err))
      | Inr out5 \<Rightarrow> Inr out5))))))"

definition createControl :: "env \<Rightarrow> time \<Rightarrow> int \<Rightarrow> string \<Rightarrow> Info \<Rightarrow> error + string" where
  "createControl E now instSize md5sums info =
     (case controlTarWriter E now instSize md5sums info of
        Inl e \<Rightarrow> Inl e
      | Inr out \<Rightarrow> Inr (targz_bytes E (tw_entries out)))"

section \<open>The container: \<^verbatim>\<open>addArFile\<close> and \<^verbatim>\<open>Package\<close>\<close>

definition addArFile :: "env \<Rightarrow> time \<Rightarrow> ar_Writer \<Rightarrow> string \<Rightarrow> string \<Rightarrow> string + ar_Writer" where
  "addArFile E now w name body =
     (case ar_WriteHeader E \<lparr>ar_Name = name, ar_Size = int (length body), ar_Mode = 420,
              ar_ModTime = now\<rparr> w of
        Inl err \<Rightarrow> Inl (''cannot write file header: '' @ err)
      | Inr w1 \<Rightarrow> ar_Write E body w1)"

text \<open>
  The result is the state of the ar writer on \<open>deb\<close> after a build that returned \<^verbatim>\<open>nil\<close>,
  or the error (or panic) of a build that did not. What a failed build has already
  written to \<open>deb\<close> is not part of the result.
\<close>

definition Package :: "env \<Rightarrow> Info \<Rightarrow> File list \<Rightarrow> error + ar_Writer" where
  "Package E info files =
     (let now = time_Now E in
      case createDataTarGz E now files of
        Inl err \<Rightarrow> Inl err
      | Inr (dataTarGz, md5sums, instSize) \<Rightarrow>
     (case createControl E now instSize md5sums info of
        Inl err \<Rightarrow> Inl err
      | Inr controlTarGz \<Rightarrow>
     (case ar_WriteGlobalHeader E ar_NewWriter of
        Inl err \<Rightarrow> Inl (Error (''cannot write ar header to deb file: '' @ err))
      | Inr w0 \<Rightarrow>
     (case addArFile E now w0 ''debian-binary'' (''2.0'' @ [nl]) of
        Inl err \<Rightarrow> Inl (Error (''cannot pack debian-binary: '' @ err))
      | Inr w1 \<Rightarrow>
     (case addArFile E now w1 ''control.tar.gz'' controlTarGz of
        Inl err \<Rightarrow> Inl (Error (''cannot add control.tar.gz to deb: '' @ err))
      | Inr w2 \<Rightarrow>
     (case addArFile E now w2 ''data.tar.gz'' dataTarGz of
        Inl err \<Rightarrow> Inl (Error (''cannot add data.tar.gz to deb: '' @ err))
      | Inr w3 \<Rightarrow> Inr w3))))))"

section \<open>Notions of the specification\<close>

text \<open>
  An entry's source is a regular file when it opens, \<^verbatim>\<open>Stat\<close> succeeds and does not report
  a directory: the entries the loop does not skip.
\<close>

definition regular_source :: "env \<Rightarrow> File \<Rightarrow> bool" where
  "regular_source E file =
     (case os_Open E (Src file) of
        Inl err \<Rightarrow> False
      | Inr f \<Rightarrow> (case f_Stat f of Inl err \<Rightarrow> False | Inr info \<Rightarrow> \<not> fi_IsDir info))"

text \<open>The on-disk size of a source: what \<^verbatim>\<open>Stat\<close> reports.\<close>

definition source_size :: "env \<Rightarrow> File \<Rightarrow> int" where
  "source_size E file =
     (case os_Open E (Src file) of
        Inl err \<Rightarrow> 0
      | Inr f \<Rightarrow> (case f_Stat f of Inl err \<Rightarrow> 0 | Inr info \<Rightarrow> fi_Size info))"

text \<open>The bytes of a source: what reading the freshly opened file yields.\<close>

definition source_bytes :: "env \<Rightarrow> File \<Rightarrow> string" where
  "source_bytes E file = (case os_Open E (Src file) of Inl err \<Rightarrow> [] | Inr f \<Rightarrow> f_data f)"

text \<open>A source that opens but whose \<^verbatim>\<open>Stat\<close> returns an error.\<close>

definition stat_fails :: "env \<Rightarrow> File \<Rightarrow> bool" where
  "stat_fails E file =
     (case os_Open E (Src file) of
        Inl err \<Rightarrow> False
      | Inr f \<Rightarrow> (case f_Stat f of Inl err \<Rightarrow> True | Inr info \<Rightarrow> False))"

text \<open>
  The tar entry a regular source is expected to contribute to the data archive: the
  destination path, the size and mode \<^verbatim>\<open>Stat\<close> reports, the build's timestamp, and the
  bytes of the source.
\<close>

definition source_mode :: "env \<Rightarrow> File \<Rightarrow> int" where
  "source_mode E file =
     (case os_Open E (Src file) of
        Inl err \<Rightarrow> 0
      | Inr f \<Rightarrow> (case f_Stat f of Inl err \<Rightarrow> 0 | Inr info \<Rightarrow> fi_Mode info))"

definition data_entry :: "env \<Rightarrow> time \<Rightarrow> File \<Rightarrow> tar_entry" where
  "data_entry E now file =
     \<lparr>te_hdr = \<lparr>tar_Name = Dst file, tar_Size = source_size E file,
                 tar_Mode = source_mode E file, tar_ModTime = now,
                 tar_Typeflag = CHR 0x00\<rparr>,
      te_body = source_bytes E file\<rparr>"

text \<open>A ledger line as the specification writes it: digest in hexadecimal, two blanks, path.\<close>

definition ledger_line :: "string \<Rightarrow> string \<Rightarrow> string" where
  "ledger_line digest rel = fmt_hex digest @ ''  '' @ rel @ [nl]"

text \<open>The lines of a text: the pieces between its newline characters.\<close>

fun lines_of :: "string \<Rightarrow> string list" where
  "lines_of [] = [[]]"
| "lines_of (c # cs) =
     (if c = nl then [] # lines_of cs
      else (case lines_of cs of [] \<Rightarrow> [[c]] | l # ls \<Rightarrow> (c # l) # ls))"






section \<open>A concrete environment\<close>

definition regular_file :: "int \<Rightarrow> string \<Rightarrow> os_File" where
  "regular_file mode content =
     \<lparr>f_Stat = Inr \<lparr>fi_Size = int (length content), fi_Mode = mode, fi_IsDir = False\<rparr>,
      f_data = content, f_read_err = None\<rparr>"

definition demo_fs :: "string \<Rightarrow> string + os_File" where
  "demo_fs p =
     (if p = ''/tmp/f.txt'' then Inr (regular_file 420 (replicate 4096 (CHR ''x'')))
      else if p = ''/tmp/a'' then Inr (regular_file 493 ''a'')
      else if p = ''/tmp/dir'' then
        Inr \<lparr>f_Stat = Inr \<lparr>fi_Size = 4096, fi_Mode = 2147484141, fi_IsDir = True\<rparr>,
             f_data = [], f_read_err = Some ''read /tmp/dir: is a directory''\<rparr>
      else if p = ''/tmp/nostat'' then
        Inr \<lparr>f_Stat = Inl ''stat /tmp/nostat: input/output error'',
             f_data = ''zz'', f_read_err = None\<rparr>
      else if p = ''/tmp/bad'' then
        Inr \<lparr>f_Stat = Inr \<lparr>fi_Size = 8, fi_Mode = 420, fi_IsDir = False\<rparr>,
             f_data = ''abc'', f_read_err = Some ''read /tmp/bad: input/output error''\<rparr>
      else Inl (''open '' @ p @ '': no such file or directory''))"

definition demo_env :: env where
  "demo_env =
     \<lparr>time_Now = 1500000000, os_Open = demo_fs, tar_hdr_err = (\<lambda>h. None),
      targz_bytes = (\<lambda>es. concat (map (\<lambda>e. tar_Name (te_hdr e) @ te_body e) es)),
      deb_err = (\<lambda>ws x. None)\<rparr>"

definition demo_info :: Info where
  "demo_info =
     \<lparr>Name = ''demo'', Arch = ''amd64'', Version = ''1.0'', Section = ''default'',
      Priority = ''extra'', Replaces = [], Provides = [], Depends = [''libc''],
      Conflicts = [], Maintainer = ''me'', Description = ''a demo'', Vendor = ''none'',
      Homepage = ''http://example.com''\<rparr>"


definition demo_files :: "File list" where
  "demo_files =
     [\<lparr>Src = ''/tmp/f.txt'', Dst = ''./usr/bin/f''\<rparr>,
      \<lparr>Src = ''/tmp/dir'', Dst = ''./usr''\<rparr>,
      \<lparr>Src = ''/tmp/a'', Dst = ''./a''\<rparr>]"






section \<open>The complete container\<close>

text \<open>
  What a build that returns \<^verbatim>\<open>nil\<close> has written to \<open>deb\<close>: the global header and three
  members, each a header followed by its bytes.
\<close>

definition deb_items :: "time \<Rightarrow> string \<Rightarrow> string \<Rightarrow> ar_item list" where
  "deb_items now controlTarGz dataTarGz =
     [ArGlobalHeader,
      ArHeader \<lparr>ar_Name = ''debian-binary'', ar_Size = 4, ar_Mode = 420, ar_ModTime = now\<rparr>,
      ArData (''2.0'' @ [nl]),
      ArHeader \<lparr>ar_Name = ''control.tar.gz'', ar_Size = int (length controlTarGz),
                ar_Mode = 420, ar_ModTime = now\<rparr>,
      ArData controlTarGz,
      ArHeader \<lparr>ar_Name = ''data.tar.gz'', ar_Size = int (length dataTarGz),
                ar_Mode = 420, ar_ModTime = now\<rparr>,
      ArData dataTarGz]"


section \<open>The loop of the data archive\<close>

lemma int64_id: "- (2 ^ 63) \<le> x \<Longrightarrow> x < 2 ^ 63 \<Longrightarrow> int64 x = x"
proof -
  assume a: "- (2 ^ 63) \<le> x" "x < 2 ^ 63"
  have "(x + 2 ^ 63) mod 2 ^ 64 = x + 2 ^ 63"
    using a by (intro mod_pos_pos_trivial) auto
  then show ?thesis by (simp add: int64_def)
qed

lemma int64_add_left: "int64 (int64 a + b) = int64 (a + b)"
proof -
  have "(((a + 2 ^ 63) mod 2 ^ 64 - 2 ^ 63 + b) + 2 ^ 63) mod 2 ^ 64
        = ((a + 2 ^ 63) mod 2 ^ 64 + b) mod (2 ^ 64 :: int)"
    by (simp add: algebra_simps)
  also have "\<dots> = ((a + 2 ^ 63) + b) mod 2 ^ 64"
    by (rule mod_add_left_eq)
  finally show ?thesis
    by (simp add: int64_def algebra_simps)
qed

lemma dataLoop_append:
  "dataLoop E now (xs @ ys) st =
     (case dataLoop E now xs st of Inl e \<Rightarrow> Inl e | Inr st' \<Rightarrow> dataLoop E now ys st')"
  by (induction xs arbitrary: st) (auto split: sum.splits)

lemma append_body_snoc:
  "append_body (es @ [e]) b = es @ [e\<lparr>te_body := te_body e @ b\<rparr>]"
  by (induction es "b" rule: append_body.induct) auto

lemma io_Copy_Inr:
  "io_Copy out f = Inr (out', f') \<Longrightarrow>
     f' = f\<lparr>f_data := []\<rparr> \<and> f_read_err f = None \<and>
     (if f_data f = [] then out' = out else tar_Write out (f_data f) = Inr out')"
  by (auto simp: io_Copy_def split: sum.splits option.splits if_splits)

lemma io_Copy_Tee_at_end:
  "f_data f = [] \<Longrightarrow> f_read_err f = None \<Longrightarrow> io_Copy_Tee out f d = Inr (out, f, d)"
  by (simp add: io_Copy_Tee_def io_Copy_def)

lemma io_Copy_entries:
  assumes "io_Copy \<lparr>tw_entries = es @ [\<lparr>te_hdr = h, te_body = []\<rparr>], tw_nb = n\<rparr> f = Inr (out', f')"
  shows "tw_entries out' = es @ [\<lparr>te_hdr = h, te_body = f_data f\<rparr>]"
    and "tw_nb out' = n - int (length (f_data f))"
    and "int (length (f_data f)) \<le> n \<or> f_data f = []"
  using assms
  by (auto simp: io_Copy_def tar_Write_def append_body_snoc
           split: sum.splits option.splits if_splits)

lemma dataFile_open_fail:
  "os_Open E (Src file) = Inl err \<Longrightarrow>
     dataFile E now file st = Inl (Error (''cannot open '' @ Src file @ '': '' @ err))"
  by (cases st) (simp add: dataFile_def)

lemma dataFile_skip:
  "os_Open E (Src file) = Inr f \<Longrightarrow> \<not> regular_source E file \<Longrightarrow>
     dataFile E now file st = Inr st"
  by (cases st) (auto simp: dataFile_def regular_source_def split: sum.splits)

lemma dataFile_regular:
  assumes reg: "regular_source E file"
    and ok: "dataFile E now file (out, buf, sz) = Inr (out', buf', sz')"
  shows "buf' = buf @ ledger_line (md5_digest []) (drop 2 (Dst file))"
    and "sz' = int64 (sz + source_size E file)"
    and "2 \<le> length (Dst file)"
    and "tw_entries out' = tw_entries out @ [data_entry E now file]"
proof -
  from reg obtain f info where op: "os_Open E (Src file) = Inr f"
    and st: "f_Stat f = Inr info" and nd: "\<not> fi_IsDir info"
    by (auto simp: regular_source_def split: sum.splits)
  define header where "header = \<lparr>tar_Name = Dst file, tar_Size = fi_Size info,
     tar_Mode = fi_Mode info, tar_ModTime = now, tar_Typeflag = CHR 0x00\<rparr>"
  from ok op st nd obtain out1 out2 f2 out3 f3 digest rel where
        wh: "tar_WriteHeader E header out = Inr out1"
    and c1: "io_Copy out1 f = Inr (out2, f2)"
    and c2: "io_Copy_Tee out2 f2 [] = Inr (out3, f3, digest)"
    and sl: "slice_from (Dst file) 2 = Some rel"
    and res: "out' = out3" "buf' = buf @ fmt_hex (md5_Sum digest []) @ ''  '' @ rel @ [nl]"
             "sz' = int64 (sz + fi_Size info)"
    by (auto simp: dataFile_def header_def Let_def split: sum.splits option.splits)
  from wh have out1: "out1 = \<lparr>tw_entries = tw_entries out @ [\<lparr>te_hdr = header, te_body = []\<rparr>],
                         tw_nb = tar_Size header\<rparr>"
    by (auto simp: tar_WriteHeader_def split: if_splits option.splits)
  from c1 have f2: "f2 = f\<lparr>f_data := []\<rparr>" "f_read_err f = None"
    using io_Copy_Inr by blast+
  then have "io_Copy_Tee out2 f2 [] = Inr (out2, f2, [])"
    by (intro io_Copy_Tee_at_end) auto
  with c2 have d: "digest = []" "out3 = out2" by auto
  from sl have rel: "rel = drop 2 (Dst file)" "2 \<le> length (Dst file)"
    by (auto simp: slice_from_def split: if_splits)
  show "buf' = buf @ ledger_line (md5_digest []) (drop 2 (Dst file))"
    using res d rel by (simp add: ledger_line_def md5_Sum_def)
  show "sz' = int64 (sz + source_size E file)"
    using res op st by (simp add: source_size_def)
  show "2 \<le> length (Dst file)" by fact
  have "tw_entries out2 = tw_entries out @ [\<lparr>te_hdr = header, te_body = f_data f\<rparr>]"
    using io_Copy_entries(1) [OF c1 [unfolded out1]] .
  moreover have "data_entry E now file = \<lparr>te_hdr = header, te_body = f_data f\<rparr>"
    using op st by (simp add: data_entry_def header_def source_size_def source_mode_def source_bytes_def)
  ultimately show "tw_entries out' = tw_entries out @ [data_entry E now file]"
    using res d by simp
qed

lemma int64_idem: "int64 (int64 a) = int64 a"
  using int64_add_left [of a 0] by simp

lemma dataLoop_result:
  "dataLoop E now files (out, buf, sz) = Inr (out', buf', sz') \<Longrightarrow> int64 sz = sz \<Longrightarrow>
     buf' = buf @ concat (map (\<lambda>f. ledger_line (md5_digest []) (drop 2 (Dst f)))
                           (filter (regular_source E) files))
   \<and> sz' = int64 (sz + sum_list (map (source_size E) (filter (regular_source E) files)))
   \<and> tw_entries out' = tw_entries out @ map (data_entry E now) (filter (regular_source E) files)
   \<and> (\<forall>f \<in> set files. regular_source E f \<longrightarrow> 2 \<le> length (Dst f))
   \<and> (\<forall>f \<in> set files. \<exists>h. os_Open E (Src f) = Inr h)"
proof (induction files arbitrary: out buf sz)
  case Nil
  then show ?case by simp
next
  case (Cons x xs)
  from Cons.prems obtain out1 buf1 sz1 where
    step: "dataFile E now x (out, buf, sz) = Inr (out1, buf1, sz1)"
    and rest: "dataLoop E now xs (out1, buf1, sz1) = Inr (out', buf', sz')"
    by (auto split: sum.splits)
  from step obtain h where op: "os_Open E (Src x) = Inr h"
    by (auto simp: dataFile_def split: sum.splits)
  show ?case
  proof (cases "regular_source E x")
    case True
    note r = dataFile_regular [OF True step]
    have "int64 sz1 = sz1" using r(2) by (simp add: int64_idem)
    note IH = Cons.IH [OF rest this]
    show ?thesis
      using IH r True op by (simp add: int64_add_left add.assoc)
  next
    case False
    with step op have eq: "out1 = out" "buf1 = buf" "sz1 = sz"
      by (simp_all add: dataFile_skip)
    note IH = Cons.IH [OF rest [unfolded eq] Cons.prems(2)]
    then show ?thesis using False op by simp
  qed
qed


lemma createDataTarGz_result:
  assumes "createDataTarGz E now files = Inr (tgz, md5sums, instSize)"
  shows "md5sums = concat (map (\<lambda>f. ledger_line (md5_digest []) (drop 2 (Dst f)))
                           (filter (regular_source E) files))"
    and "instSize = int64 (sum_list (map (source_size E) (filter (regular_source E) files)))"
    and "tgz = targz_bytes E (map (data_entry E now) (filter (regular_source E) files))"
    and "\<forall>f \<in> set files. regular_source E f \<longrightarrow> 2 \<le> length (Dst f)"
    and "\<forall>f \<in> set files. \<exists>h. os_Open E (Src f) = Inr h"
proof -
  from assms obtain out out' where
    loop: "dataLoop E now files (tar_NewWriter, [], 0) = Inr (out, md5sums, instSize)"
    and cl: "tar_Close out = Inr out'" and tgz: "tgz = targz_bytes E (tw_entries out')"
    by (auto simp: createDataTarGz_def dataTarWriter_def split: sum.splits)
  have z: "int64 0 = 0" by (simp add: int64_id)
  note r = dataLoop_result [OF loop z]
  from cl have "out' = out" by (auto simp: tar_Close_def split: if_splits)
  with r tgz show
    "md5sums = concat (map (\<lambda>f. ledger_line (md5_digest []) (drop 2 (Dst f)))
                           (filter (regular_source E) files))"
    "instSize = int64 (sum_list (map (source_size E) (filter (regular_source E) files)))"
    "tgz = targz_bytes E (map (data_entry E now) (filter (regular_source E) files))"
    "\<forall>f \<in> set files. regular_source E f \<longrightarrow> 2 \<le> length (Dst f)"
    "\<forall>f \<in> set files. \<exists>h. os_Open E (Src f) = Inr h"
    by (simp_all add: tar_NewWriter_def)
qed

lemmas demo_eval =
  createDataTarGz_def dataTarWriter_def dataFile_def demo_env_def demo_fs_def
  regular_file_def tar_WriteHeader_def tar_Write_def tar_Close_def tar_NewWriter_def
  io_Copy_def io_Copy_Tee_def slice_from_def md5_Sum_def int64_def Let_def

lemma md5_of_nothing: "fmt_hex (md5_digest []) = ''d41d8cd98f00b204e9800998ecf8427e''"
  by code_simp

lemma demo_files_result:
  "createDataTarGz demo_env 7 demo_files
     = Inr (''./usr/bin/f'' @ replicate 4096 (CHR ''x'') @ ''./aa'',
            ''d41d8cd98f00b204e9800998ecf8427e  usr/bin/f'' @ [nl] @
            ''d41d8cd98f00b204e9800998ecf8427e  a'' @ [nl], 4097)"
  using md5_of_nothing by (simp add: demo_eval demo_files_def)

lemma demo_files_regular:
  "filter (regular_source demo_env) demo_files =
     [\<lparr>Src = ''/tmp/f.txt'', Dst = ''./usr/bin/f''\<rparr>, \<lparr>Src = ''/tmp/a'', Dst = ''./a''\<rparr>]"
  by (simp add: demo_files_def regular_source_def demo_env_def demo_fs_def regular_file_def)

section \<open>The checksum ledger and the installed size\<close>

text \<open>
  Claim C4. When the data archive is built, the checksum ledger is the concatenation, in
  input order, of one line per entry whose source is a regular file; an entry whose
  source is a directory (or is skipped for another reason) contributes nothing. Each
  line is the hexadecimal digest the code computes, two blanks, the destination path
  without its first two characters, and a newline.
\<close>

theorem ledger_one_line_per_regular_file_in_order:
  "createDataTarGz E now files = Inr (tgz, md5sums, instSize) \<Longrightarrow>
     md5sums = concat (map (\<lambda>f. ledger_line (md5_digest []) (drop 2 (Dst f)))
                           (filter (regular_source E) files))"
  by (rule createDataTarGz_result(1))

theorem ledger_one_line_per_regular_file_in_order_witness:
  "createDataTarGz demo_env 7 demo_files
     = Inr (''./usr/bin/f'' @ replicate 4096 (CHR ''x'') @ ''./aa'',
            ''d41d8cd98f00b204e9800998ecf8427e  usr/bin/f'' @ [nl] @
            ''d41d8cd98f00b204e9800998ecf8427e  a'' @ [nl], 4097)
   \<and> ''d41d8cd98f00b204e9800998ecf8427e  usr/bin/f'' @ [nl] @
     ''d41d8cd98f00b204e9800998ecf8427e  a'' @ [nl]
     = concat (map (\<lambda>f. ledger_line (md5_digest []) (drop 2 (Dst f)))
         [\<lparr>Src = ''/tmp/f.txt'', Dst = ''./usr/bin/f''\<rparr>, \<lparr>Src = ''/tmp/a'', Dst = ''./a''\<rparr>])"
  using ledger_one_line_per_regular_file_in_order [OF demo_files_result] demo_files_result
  by (simp only: demo_files_regular simp_thms)

text \<open>
  Claim C5. The installed size returned with the data archive is the sum of the sizes
  that \<^verbatim>\<open>Stat\<close> reports for the entries whose source is a regular file, as long as that
  sum is an \<^verbatim>\<open>int64\<close>; it is zero when no entry is a regular file.
\<close>

theorem installed_size_is_sum_of_regular_sizes:
  assumes "createDataTarGz E now files = Inr (tgz, md5sums, instSize)"
  shows "(- (2 ^ 63) \<le> sum_list (map (source_size E) (filter (regular_source E) files))
          \<and> sum_list (map (source_size E) (filter (regular_source E) files)) < 2 ^ 63
          \<longrightarrow> instSize = sum_list (map (source_size E) (filter (regular_source E) files)))
       \<and> (filter (regular_source E) files = [] \<longrightarrow> instSize = 0)"
  using createDataTarGz_result(2) [OF assms] by (auto simp: int64_id)

theorem installed_size_is_sum_of_regular_sizes_witness:
  "createDataTarGz demo_env 7 demo_files
     = Inr (''./usr/bin/f'' @ replicate 4096 (CHR ''x'') @ ''./aa'',
            ''d41d8cd98f00b204e9800998ecf8427e  usr/bin/f'' @ [nl] @
            ''d41d8cd98f00b204e9800998ecf8427e  a'' @ [nl], 4097)
   \<and> sum_list (map (source_size demo_env) (filter (regular_source demo_env) demo_files)) = 4097
   \<and> createDataTarGz demo_env 7 [\<lparr>Src = ''/tmp/dir'', Dst = ''./usr''\<rparr>] = Inr ([], [], 0)
   \<and> filter (regular_source demo_env) [\<lparr>Src = ''/tmp/dir'', Dst = ''./usr''\<rparr>] = []"
proof -
  have s: "sum_list (map (source_size demo_env) (filter (regular_source demo_env) demo_files)) = 4097"
    unfolding demo_files_regular
    by (simp add: source_size_def demo_env_def demo_fs_def regular_file_def)
  have d: "createDataTarGz demo_env 7 [\<lparr>Src = ''/tmp/dir'', Dst = ''./usr''\<rparr>] = Inr ([], [], 0)"
    by (simp add: demo_eval)
  have n: "filter (regular_source demo_env) [\<lparr>Src = ''/tmp/dir'', Dst = ''./usr''\<rparr>] = []"
    by (simp add: regular_source_def demo_env_def demo_fs_def)
  show ?thesis
    using installed_size_is_sum_of_regular_sizes [OF demo_files_result]
      installed_size_is_sum_of_regular_sizes [OF d] demo_files_result s d n
    by simp
qed

section \<open>The digest in a ledger line\<close>

lemma md5_of_a: "fmt_hex (md5_digest ''a'') = ''0cc175b9c0f1b6a831c399e269772661''"
  by code_simp

text \<open>
  Claim C1 asks for the digest of the file's bytes in its ledger line. The first
  \<^verbatim>\<open>io.Copy\<close> leaves the file at its end, so the second one, which feeds the hash, reads
  nothing: the line carries the digest of the empty input. For a source holding the one
  byte \<open>a\<close> the code writes \<open>d41d8cd9...\<close> where the digest of the content is
  \<open>0cc175b9...\<close>.
\<close>

theorem ledger_digest_is_of_no_bytes:
  "createDataTarGz demo_env 7 [\<lparr>Src = ''/tmp/a'', Dst = ''./a''\<rparr>]
     = Inr (''./aa'', ''d41d8cd98f00b204e9800998ecf8427e  a'' @ [nl], 1)
   \<and> source_bytes demo_env \<lparr>Src = ''/tmp/a'', Dst = ''./a''\<rparr> = ''a''
   \<and> ledger_line (md5_digest ''a'') ''a'' = ''0cc175b9c0f1b6a831c399e269772661  a'' @ [nl]
   \<and> ledger_line (md5_digest []) ''a'' = ''d41d8cd98f00b204e9800998ecf8427e  a'' @ [nl]"
  using md5_of_nothing md5_of_a
  by (simp add: demo_eval ledger_line_def source_bytes_def)

section \<open>Failures while reading the sources\<close>

lemma createDataTarGz_loop_Inl:
  "dataLoop E now files (tar_NewWriter, [], 0) = Inl e \<Longrightarrow> createDataTarGz E now files = Inl e"
  by (simp add: createDataTarGz_def dataTarWriter_def)

lemma createDataTarGz_loop_eq:
  "dataLoop E now xs (tar_NewWriter, [], 0) = dataLoop E now ys (tar_NewWriter, [], 0) \<Longrightarrow>
     createDataTarGz E now xs = createDataTarGz E now ys"
  by (simp add: createDataTarGz_def dataTarWriter_def)

lemma dataLoop_stops:
  "dataLoop E now pre st0 = Inr st \<Longrightarrow> dataFile E now f st = Inl e \<Longrightarrow>
     dataLoop E now (pre @ f # post) st0 = Inl e"
  by (simp add: dataLoop_append)

lemma dataLoop_skip:
  "os_Open E (Src f) = Inr h \<Longrightarrow> \<not> regular_source E f \<Longrightarrow>
     dataLoop E now (pre @ f # post) st0 = dataLoop E now (pre @ post) st0"
  by (simp add: dataLoop_append dataFile_skip split: sum.splits)

lemma stat_fails_skipped:
  "stat_fails E f \<Longrightarrow> \<exists>h. os_Open E (Src f) = Inr h \<and> \<not> regular_source E f"
  by (auto simp: stat_fails_def regular_source_def split: sum.splits)

lemma data_entry_hdr:
  "os_Open E (Src f) = Inr h \<Longrightarrow> f_Stat h = Inr info \<Longrightarrow>
     te_hdr (data_entry E now f) =
       \<lparr>tar_Name = Dst f, tar_Size = fi_Size info, tar_Mode = fi_Mode info,
        tar_ModTime = now, tar_Typeflag = CHR 0x00\<rparr>"
  by (simp add: data_entry_def source_size_def source_mode_def)

lemma regular_sourceD:
  "regular_source E f \<Longrightarrow>
     \<exists>h info. os_Open E (Src f) = Inr h \<and> f_Stat h = Inr info \<and> \<not> fi_IsDir info"
  by (auto simp: regular_source_def split: sum.splits)

lemma dataFile_read_fail:
  assumes "os_Open E (Src f) = Inr h" "regular_source E f" "f_read_err h = Some err"
  shows "\<exists>msg. dataFile E now f st = Inl (Error msg)"
proof -
  from assms(1,2) obtain info where "f_Stat h = Inr info" "\<not> fi_IsDir info"
    by (auto dest: regular_sourceD)
  with assms show ?thesis
    by (cases st) (auto simp: dataFile_def io_Copy_def Let_def split: sum.splits option.splits)
qed

lemma dataFile_read_fail_message:
  assumes "os_Open E (Src f) = Inr h" "regular_source E f" "f_read_err h = Some err"
    and "tar_WriteHeader E (te_hdr (data_entry E now f)) out = Inr out1"
    and "int (length (f_data h)) \<le> source_size E f"
  shows "dataFile E now f (out, buf, sz)
           = Inl (Error (''cannot write '' @ Dst f @ '' to data.tar.gz: '' @ err))"
proof -
  from assms(1,2) obtain info where i: "f_Stat h = Inr info" "\<not> fi_IsDir info"
    by (auto dest: regular_sourceD)
  note hd = data_entry_hdr [OF assms(1) i(1)]
  from assms(4) have "tw_nb out1 = fi_Size info"
    by (auto simp: hd tar_WriteHeader_def split: if_splits option.splits)
  moreover have "source_size E f = fi_Size info"
    using assms(1) i by (simp add: source_size_def)
  ultimately have "io_Copy out1 h = Inl err"
    using assms(3,5) by (simp add: io_Copy_def tar_Write_def)
  then show ?thesis
    using assms(1,4) i by (simp add: dataFile_def hd [symmetric] Let_def) (simp add: hd)
qed

text \<open>
  A source that opens but cannot be examined by \<^verbatim>\<open>Stat\<close> does not abort the build: the
  entry is passed over and the build returns an (empty) archive.
\<close>

theorem stat_failure_is_skipped_counterexample:
  "stat_fails demo_env \<lparr>Src = ''/tmp/nostat'', Dst = ''./n''\<rparr>
   \<and> createDataTarGz demo_env 7 [\<lparr>Src = ''/tmp/nostat'', Dst = ''./n''\<rparr>] = Inr ([], [], 0)"
  by (simp add: demo_eval stat_fails_def)

text \<open>
  Claim C2, amended. Let the entries before \<open>f\<close> be processed without error. If the
  source of \<open>f\<close> cannot be opened, the build stops there with the error
  \<open>cannot open <source path>: ...\<close>. If it is a regular file that cannot be read to its
  end, the build stops with an error, which reads
  \<open>cannot write <destination path> to data.tar.gz: ...\<close> when its header was written and
  the bytes read fit the announced size. In both cases the result is an error and no
  archive. If \<^verbatim>\<open>Stat\<close> fails on the opened source, the entry is skipped as if it were
  absent from the sequence. Whenever some source of the sequence cannot be opened, the
  build returns no archive.
\<close>

theorem unopenable_or_unreadable_source_aborts:
  assumes pre: "dataLoop E now pre (tar_NewWriter, [], 0) = Inr (out, buf, sz)"
  shows
   "(os_Open E (Src f) = Inl err \<longrightarrow>
       createDataTarGz E now (pre @ f # post)
         = Inl (Error (''cannot open '' @ Src f @ '': '' @ err)))
  \<and> (os_Open E (Src f) = Inr h \<and> regular_source E f \<and> f_read_err h = Some err \<longrightarrow>
       (\<exists>msg. createDataTarGz E now (pre @ f # post) = Inl (Error msg)))
  \<and> (os_Open E (Src f) = Inr h \<and> regular_source E f \<and> f_read_err h = Some err
       \<and> tar_WriteHeader E (te_hdr (data_entry E now f)) out = Inr out1
       \<and> int (length (f_data h)) \<le> source_size E f \<longrightarrow>
       createDataTarGz E now (pre @ f # post)
         = Inl (Error (''cannot write '' @ Dst f @ '' to data.tar.gz: '' @ err)))
  \<and> (stat_fails E f \<longrightarrow>
       createDataTarGz E now (pre @ f # post) = createDataTarGz E now (pre @ post))
  \<and> ((\<exists>g \<in> set files. \<exists>e. os_Open E (Src g) = Inl e) \<longrightarrow>
       (\<exists>e. createDataTarGz E now files = Inl e))"
proof (intro conjI impI)
  assume "os_Open E (Src f) = Inl err"
  then show "createDataTarGz E now (pre @ f # post)
         = Inl (Error (''cannot open '' @ Src f @ '': '' @ err))"
    by (intro createDataTarGz_loop_Inl dataLoop_stops [OF pre] dataFile_open_fail)
next
  assume "os_Open E (Src f) = Inr h \<and> regular_source E f \<and> f_read_err h = Some err"
  then obtain msg where "dataFile E now f (out, buf, sz) = Inl (Error msg)"
    using dataFile_read_fail by blast
  then show "\<exists>msg. createDataTarGz E now (pre @ f # post) = Inl (Error msg)"
    using createDataTarGz_loop_Inl dataLoop_stops [OF pre] by blast
next
  assume "os_Open E (Src f) = Inr h \<and> regular_source E f \<and> f_read_err h = Some err
       \<and> tar_WriteHeader E (te_hdr (data_entry E now f)) out = Inr out1
       \<and> int (length (f_data h)) \<le> source_size E f"
  then have "dataFile E now f (out, buf, sz)
           = Inl (Error (''cannot write '' @ Dst f @ '' to data.tar.gz: '' @ err))"
    by (intro dataFile_read_fail_message) auto
  then show "createDataTarGz E now (pre @ f # post)
         = Inl (Error (''cannot write '' @ Dst f @ '' to data.tar.gz: '' @ err))"
    by (intro createDataTarGz_loop_Inl dataLoop_stops [OF pre])
next
  assume "stat_fails E f"
  then obtain h' where "os_Open E (Src f) = Inr h'" "\<not> regular_source E f"
    using stat_fails_skipped by blast
  then show "createDataTarGz E now (pre @ f # post) = createDataTarGz E now (pre @ post)"
    by (intro createDataTarGz_loop_eq dataLoop_skip)
next
  assume a: "\<exists>g \<in> set files. \<exists>e. os_Open E (Src g) = Inl e"
  show "\<exists>e. createDataTarGz E now files = Inl e"
  proof (cases "createDataTarGz E now files")
    case (Inl e)
    then show ?thesis by blast
  next
    case (Inr r)
    obtain t m s where "r = (t, m, s)" by (cases r)
    with Inr have "\<forall>f \<in> set files. \<exists>h. os_Open E (Src f) = Inr h"
      using createDataTarGz_result(5) by blast
    with a show ?thesis by auto
  qed
qed


lemma demo_prefix:
  "dataLoop demo_env 7 [\<lparr>Src = ''/tmp/a'', Dst = ''./a''\<rparr>] (tar_NewWriter, [], 0)
     = Inr (\<lparr>tw_entries = [\<lparr>te_hdr = \<lparr>tar_Name = ''./a'', tar_Size = 1, tar_Mode = 493,
                tar_ModTime = 7, tar_Typeflag = CHR 0x00\<rparr>, te_body = ''a''\<rparr>], tw_nb = 0\<rparr>,
            ''d41d8cd98f00b204e9800998ecf8427e  a'' @ [nl], 1)"
  using md5_of_nothing by (simp add: demo_eval)

theorem unopenable_or_unreadable_source_aborts_witness:
  "createDataTarGz demo_env 7
     [\<lparr>Src = ''/tmp/a'', Dst = ''./a''\<rparr>, \<lparr>Src = ''/tmp/none'', Dst = ''./n''\<rparr>,
      \<lparr>Src = ''/tmp/f.txt'', Dst = ''./f''\<rparr>]
     = Inl (Error ''cannot open /tmp/none: open /tmp/none: no such file or directory'')
   \<and> createDataTarGz demo_env 7
     [\<lparr>Src = ''/tmp/a'', Dst = ''./a''\<rparr>, \<lparr>Src = ''/tmp/bad'', Dst = ''./b''\<rparr>,
      \<lparr>Src = ''/tmp/f.txt'', Dst = ''./f''\<rparr>]
     = Inl (Error ''cannot write ./b to data.tar.gz: read /tmp/bad: input/output error'')
   \<and> createDataTarGz demo_env 7
     [\<lparr>Src = ''/tmp/a'', Dst = ''./a''\<rparr>, \<lparr>Src = ''/tmp/nostat'', Dst = ''./s''\<rparr>,
      \<lparr>Src = ''/tmp/f.txt'', Dst = ''./f''\<rparr>]
     = createDataTarGz demo_env 7
     [\<lparr>Src = ''/tmp/a'', Dst = ''./a''\<rparr>, \<lparr>Src = ''/tmp/f.txt'', Dst = ''./f''\<rparr>]"
proof (intro conjI)
  have o: "os_Open demo_env (Src \<lparr>Src = ''/tmp/none'', Dst = ''./n''\<rparr>)
             = Inl ''open /tmp/none: no such file or directory''"
    by (simp add: demo_env_def demo_fs_def)
  show "createDataTarGz demo_env 7
     [\<lparr>Src = ''/tmp/a'', Dst = ''./a''\<rparr>, \<lparr>Src = ''/tmp/none'', Dst = ''./n''\<rparr>,
      \<lparr>Src = ''/tmp/f.txt'', Dst = ''./f''\<rparr>]
     = Inl (Error ''cannot open /tmp/none: open /tmp/none: no such file or directory'')"
    using unopenable_or_unreadable_source_aborts [OF demo_prefix,
        where f = "\<lparr>Src = ''/tmp/none'', Dst = ''./n''\<rparr>"
          and err = "''open /tmp/none: no such file or directory''"
          and post = "[\<lparr>Src = ''/tmp/f.txt'', Dst = ''./f''\<rparr>]"] o
    by simp
next
  let ?b = "\<lparr>Src = ''/tmp/bad'', Dst = ''./b''\<rparr>"
  let ?h = "\<lparr>f_Stat = Inr \<lparr>fi_Size = 8, fi_Mode = 420, fi_IsDir = False\<rparr>,
             f_data = ''abc'', f_read_err = Some ''read /tmp/bad: input/output error''\<rparr>"
  let ?w0 = "\<lparr>tw_entries = [\<lparr>te_hdr = \<lparr>tar_Name = ''./a'', tar_Size = 1, tar_Mode = 493,
                tar_ModTime = 7, tar_Typeflag = CHR 0x00\<rparr>, te_body = ''a''\<rparr>], tw_nb = 0\<rparr>"
  let ?w1 = "\<lparr>tw_entries = [\<lparr>te_hdr = \<lparr>tar_Name = ''./a'', tar_Size = 1, tar_Mode = 493,
                tar_ModTime = 7, tar_Typeflag = CHR 0x00\<rparr>, te_body = ''a''\<rparr>,
                \<lparr>te_hdr = \<lparr>tar_Name = ''./b'', tar_Size = 8, tar_Mode = 420,
                tar_ModTime = 7, tar_Typeflag = CHR 0x00\<rparr>, te_body = []\<rparr>], tw_nb = 8\<rparr>"
  have o: "os_Open demo_env (Src ?b) = Inr ?h"
    by (simp add: demo_env_def demo_fs_def)
  have r: "regular_source demo_env ?b" "f_read_err ?h = Some ''read /tmp/bad: input/output error''"
    by (simp_all add: regular_source_def demo_env_def demo_fs_def)
  have w: "tar_WriteHeader demo_env (te_hdr (data_entry demo_env 7 ?b)) ?w0 = Inr ?w1"
    by (simp add: tar_WriteHeader_def data_entry_def source_size_def source_mode_def
          demo_env_def demo_fs_def)
  have l: "int (length (f_data ?h)) \<le> source_size demo_env ?b"
    by (simp add: source_size_def demo_env_def demo_fs_def)
  show "createDataTarGz demo_env 7
     [\<lparr>Src = ''/tmp/a'', Dst = ''./a''\<rparr>, ?b, \<lparr>Src = ''/tmp/f.txt'', Dst = ''./f''\<rparr>]
     = Inl (Error ''cannot write ./b to data.tar.gz: read /tmp/bad: input/output error'')"
    using unopenable_or_unreadable_source_aborts [OF demo_prefix,
        where f = ?b and h = ?h and err = "''read /tmp/bad: input/output error''"
          and ?out1.0 = ?w1 and post = "[\<lparr>Src = ''/tmp/f.txt'', Dst = ''./f''\<rparr>]"] o r w l
    by simp
next
  have s: "stat_fails demo_env \<lparr>Src = ''/tmp/nostat'', Dst = ''./s''\<rparr>"
    by (simp add: stat_fails_def demo_env_def demo_fs_def)
  show "createDataTarGz demo_env 7
     [\<lparr>Src = ''/tmp/a'', Dst = ''./a''\<rparr>, \<lparr>Src = ''/tmp/nostat'', Dst = ''./s''\<rparr>,
      \<lparr>Src = ''/tmp/f.txt'', Dst = ''./f''\<rparr>]
     = createDataTarGz demo_env 7
     [\<lparr>Src = ''/tmp/a'', Dst = ''./a''\<rparr>, \<lparr>Src = ''/tmp/f.txt'', Dst = ''./f''\<rparr>]"
    using unopenable_or_unreadable_source_aborts [OF demo_prefix,
        where f = "\<lparr>Src = ''/tmp/nostat'', Dst = ''./s''\<rparr>"
          and post = "[\<lparr>Src = ''/tmp/f.txt'', Dst = ''./f''\<rparr>]"] s
    by simp
qed

section \<open>Destination paths shorter than two characters\<close>

lemma dataFile_panic:
  assumes "os_Open E (Src f) = Inr h" "regular_source E f"
    and "tar_WriteHeader E (te_hdr (data_entry E now f)) out = Inr out1"
    and "io_Copy out1 h = Inr (out2, h2)"
    and "length (Dst f) < 2"
  shows "dataFile E now f (out, buf, sz) = Inl (Panic ''runtime error: slice bounds out of range'')"
proof -
  from assms(1,2) obtain info where i: "f_Stat h = Inr info" "\<not> fi_IsDir info"
    by (auto dest: regular_sourceD)
  note hd = data_entry_hdr [OF assms(1) i(1)]
  from assms(4) have "h2 = h\<lparr>f_data := []\<rparr>" "f_read_err h = None"
    using io_Copy_Inr by blast+
  then have "io_Copy_Tee out2 h2 [] = Inr (out2, h2, [])"
    by (intro io_Copy_Tee_at_end) auto
  then show ?thesis
    using assms i by (simp add: dataFile_def hd slice_from_def)
qed

lemma dataFile_Panic_only:
  "dataFile E now f st = Inl (Panic msg) \<Longrightarrow> regular_source E f \<and> length (Dst f) < 2"
  by (cases st)
     (auto simp: dataFile_def regular_source_def slice_from_def Let_def
           split: sum.splits option.splits if_splits)

lemma dataLoop_Panic_only:
  "dataLoop E now files st = Inl (Panic msg) \<Longrightarrow>
     \<exists>f \<in> set files. regular_source E f \<and> length (Dst f) < 2"
proof (induction files arbitrary: st)
  case Nil
  then show ?case by simp
next
  case (Cons x xs)
  show ?case
  proof (cases "dataFile E now x st")
    case (Inl e)
    with Cons.prems have "dataFile E now x st = Inl (Panic msg)" by simp
    then show ?thesis using dataFile_Panic_only by fastforce
  next
    case (Inr st')
    with Cons.prems have "dataLoop E now xs st' = Inl (Panic msg)" by simp
    then show ?thesis using Cons.IH by fastforce
  qed
qed

text \<open>
  Claim C10. For an entry whose source is a regular file and whose destination path has
  fewer than two characters, once the entries before it are processed and its header and
  bytes are written, \<^verbatim>\<open>header.Name[2:]\<close> panics: the build ends in a run-time panic, not
  in an error value. Conversely a build panics only if some regular-file entry has such
  a destination path, so with all destination paths of length at least two it returns
  an archive or an error.
\<close>

theorem short_destination_path_panics:
  "(dataLoop E now pre (tar_NewWriter, [], 0) = Inr (out, buf, sz)
      \<and> os_Open E (Src f) = Inr h \<and> regular_source E f
      \<and> tar_WriteHeader E (te_hdr (data_entry E now f)) out = Inr out1
      \<and> io_Copy out1 h = Inr (out2, h2)
      \<and> length (Dst f) < 2 \<longrightarrow>
      createDataTarGz E now (pre @ f # post)
        = Inl (Panic ''runtime error: slice bounds out of range''))
   \<and> (createDataTarGz E now files = Inl (Panic msg) \<longrightarrow>
        (\<exists>g \<in> set files. regular_source E g \<and> length (Dst g) < 2))"
proof (intro conjI impI)
  assume a: "dataLoop E now pre (tar_NewWriter, [], 0) = Inr (out, buf, sz)
      \<and> os_Open E (Src f) = Inr h \<and> regular_source E f
      \<and> tar_WriteHeader E (te_hdr (data_entry E now f)) out = Inr out1
      \<and> io_Copy out1 h = Inr (out2, h2)
      \<and> length (Dst f) < 2"
  then have "dataFile E now f (out, buf, sz)
      = Inl (Panic ''runtime error: slice bounds out of range'')"
    by (intro dataFile_panic) auto
  with a show "createDataTarGz E now (pre @ f # post)
        = Inl (Panic ''runtime error: slice bounds out of range'')"
    by (intro createDataTarGz_loop_Inl dataLoop_stops) auto
next
  assume "createDataTarGz E now files = Inl (Panic msg)"
  then have "dataLoop E now files (tar_NewWriter, [], 0) = Inl (Panic msg)"
    by (auto simp: createDataTarGz_def dataTarWriter_def split: sum.splits prod.splits)
  then show "\<exists>g \<in> set files. regular_source E g \<and> length (Dst g) < 2"
    by (rule dataLoop_Panic_only)
qed

theorem short_destination_path_panics_witness:
  "createDataTarGz demo_env 7
     [\<lparr>Src = ''/tmp/a'', Dst = ''./a''\<rparr>, \<lparr>Src = ''/tmp/a'', Dst = ''a''\<rparr>,
      \<lparr>Src = ''/tmp/f.txt'', Dst = ''./f''\<rparr>]
     = Inl (Panic ''runtime error: slice bounds out of range'')
   \<and> regular_source demo_env \<lparr>Src = ''/tmp/a'', Dst = ''a''\<rparr>
   \<and> length (Dst \<lparr>Src = ''/tmp/a'', Dst = ''a''\<rparr>) = 1"
proof -
  let ?f = "\<lparr>Src = ''/tmp/a'', Dst = ''a''\<rparr>"
  let ?h = "regular_file 493 ''a''"
  let ?e = "\<lparr>te_hdr = \<lparr>tar_Name = ''./a'', tar_Size = 1, tar_Mode = 493,
                tar_ModTime = 7, tar_Typeflag = CHR 0x00\<rparr>, te_body = ''a''\<rparr>"
  let ?hd = "\<lparr>tar_Name = ''a'', tar_Size = 1, tar_Mode = 493,
                tar_ModTime = 7, tar_Typeflag = CHR 0x00\<rparr>"
  let ?w1 = "\<lparr>tw_entries = [?e, \<lparr>te_hdr = ?hd, te_body = []\<rparr>], tw_nb = 1\<rparr>"
  let ?w2 = "\<lparr>tw_entries = [?e, \<lparr>te_hdr = ?hd, te_body = ''a''\<rparr>], tw_nb = 0\<rparr>"
  have o: "os_Open demo_env (Src ?f) = Inr ?h"
    by (simp add: demo_env_def demo_fs_def)
  have r: "regular_source demo_env ?f"
    by (simp add: regular_source_def demo_env_def demo_fs_def regular_file_def)
  have w: "tar_WriteHeader demo_env (te_hdr (data_entry demo_env 7 ?f))
             \<lparr>tw_entries = [?e], tw_nb = 0\<rparr> = Inr ?w1"
    by (simp add: tar_WriteHeader_def data_entry_def source_size_def source_mode_def
          demo_env_def demo_fs_def regular_file_def)
  have c: "io_Copy ?w1 ?h = Inr (?w2, ?h\<lparr>f_data := []\<rparr>)"
    by (simp add: io_Copy_def tar_Write_def regular_file_def)
  have l: "length (Dst ?f) < 2" by simp
  show ?thesis
    using short_destination_path_panics [where E = demo_env and now = 7
        and pre = "[\<lparr>Src = ''/tmp/a'', Dst = ''./a''\<rparr>]" and f = ?f and h = ?h
        and ?out1.0 = ?w1 and ?out2.0 = ?w2 and ?h2.0 = "?h\<lparr>f_data := []\<rparr>"
        and post = "[\<lparr>Src = ''/tmp/f.txt'', Dst = ''./f''\<rparr>]"
        and out = "\<lparr>tw_entries = [?e], tw_nb = 0\<rparr>"
        and buf = "''d41d8cd98f00b204e9800998ecf8427e  a'' @ [nl]" and sz = 1]
      demo_prefix o r w c l
    by simp
qed

section \<open>The control archive\<close>

lemmas tar_ops = tar_WriteHeader_def tar_Write_def tar_Close_def tar_NewWriter_def

lemma controlTarWriter_cases:
  "controlTarWriter E now instSize md5sums info =
     (let body = controlTemplate \<lparr>cd_Info = info, cd_InstalledSize = go_div instSize 1024\<rparr>;
          h1 = \<lparr>tar_Name = ''control'', tar_Size = int (length body), tar_Mode = 420,
                  tar_ModTime = now, tar_Typeflag = tar_TypeReg\<rparr>;
          h2 = \<lparr>tar_Name = ''md5sums'', tar_Size = int (length md5sums), tar_Mode = 420,
                  tar_ModTime = now, tar_Typeflag = tar_TypeReg\<rparr>
      in case tar_hdr_err E h1 of
           Some err \<Rightarrow>
             Inl (Error (''cannot write header of control file to control.tar.gz: '' @ err))
         | None \<Rightarrow>
        (case tar_hdr_err E h2 of
           Some err \<Rightarrow>
             Inl (Error (''cannot write header of md5sums file to control.tar.gz: '' @ err))
         | None \<Rightarrow>
             Inr \<lparr>tw_entries = [\<lparr>te_hdr = h1, te_body = body\<rparr>,
                                 \<lparr>te_hdr = h2, te_body = md5sums\<rparr>], tw_nb = 0\<rparr>))"
  by (simp add: controlTarWriter_def template_Execute_def tar_ops Let_def
           split: option.splits)


text \<open>
  Claim C8. A control archive that is built holds exactly two tar entries, in this order:
  \<open>control\<close>, whose body is the rendered control record, and \<open>md5sums\<close>, whose body is
  the checksum ledger. Both headers carry the timestamp passed in, the mode 0644, the
  regular-file type and the length of their body. The build succeeds whenever the tar
  library accepts the two headers.
\<close>

theorem control_archive_has_two_entries:
  "(let body = controlTemplate \<lparr>cd_Info = info, cd_InstalledSize = go_div instSize 1024\<rparr>;
        h1 = \<lparr>tar_Name = ''control'', tar_Size = int (length body),
                tar_Mode = 6 * 8 ^ 2 + 4 * 8 + 4, tar_ModTime = now, tar_Typeflag = CHR ''0''\<rparr>;
        h2 = \<lparr>tar_Name = ''md5sums'', tar_Size = int (length md5sums),
                tar_Mode = 6 * 8 ^ 2 + 4 * 8 + 4, tar_ModTime = now, tar_Typeflag = CHR ''0''\<rparr>;
        entries = [\<lparr>te_hdr = h1, te_body = body\<rparr>, \<lparr>te_hdr = h2, te_body = md5sums\<rparr>]
    in (createControl E now instSize md5sums info = Inr controlTarGz \<longrightarrow>
          controlTarGz = targz_bytes E entries
          \<and> controlTarWriter E now instSize md5sums info
              = Inr \<lparr>tw_entries = entries, tw_nb = 0\<rparr>)
     \<and> (tar_hdr_err E h1 = None \<and> tar_hdr_err E h2 = None \<longrightarrow>
          createControl E now instSize md5sums info = Inr (targz_bytes E entries)))"
proof -
  have m: "(6 * 8 ^ 2 + 4 * 8 + 4 :: int) = 420" by simp
  show ?thesis
    unfolding m createControl_def controlTarWriter_cases tar_TypeReg_def Let_def
    by (simp split: option.splits)
qed

theorem control_archive_has_two_entries_witness:
  "createControl demo_env 7 4096 ''x'' demo_info
     = Inr (targz_bytes demo_env
        [\<lparr>te_hdr = \<lparr>tar_Name = ''control'',
             tar_Size = int (length (controlTemplate \<lparr>cd_Info = demo_info, cd_InstalledSize = 4\<rparr>)),
             tar_Mode = 420, tar_ModTime = 7, tar_Typeflag = CHR ''0''\<rparr>,
           te_body = controlTemplate \<lparr>cd_Info = demo_info, cd_InstalledSize = 4\<rparr>\<rparr>,
         \<lparr>te_hdr = \<lparr>tar_Name = ''md5sums'', tar_Size = 1,
             tar_Mode = 420, tar_ModTime = 7, tar_Typeflag = CHR ''0''\<rparr>,
           te_body = ''x''\<rparr>])"
proof -
  have h: "tar_hdr_err demo_env a = None" for a by (simp add: demo_env_def)
  have g: "go_div 4096 1024 = 4" by (simp add: go_div_def)
  show ?thesis
    using control_archive_has_two_entries [where E = demo_env and now = 7 and instSize = 4096
        and md5sums = "''x''" and info = demo_info and controlTarGz = "[]", unfolded Let_def]
    by (simp add: h g)
qed

lemma createControl_Inr:
  "createControl E now instSize md5sums info = Inr c \<longleftrightarrow>
     (\<exists>cw. controlTarWriter E now instSize md5sums info = Inr cw
           \<and> c = targz_bytes E (tw_entries cw))"
  by (auto simp: createControl_def split: sum.splits)

section \<open>The outer container\<close>

lemmas ar_ops = ar_put_def ar_WriteGlobalHeader_def ar_WriteHeader_def ar_Write_def
  ar_NewWriter_def addArFile_def

lemma Package_Inr:
  assumes "Package E info files = Inr w"
  shows "\<exists>d m s c. createDataTarGz E (time_Now E) files = Inr (d, m, s)
           \<and> createControl E (time_Now E) s m info = Inr c
           \<and> ar_items w = deb_items (time_Now E) c d"
proof -
  from assms obtain d m s where
    d: "createDataTarGz E (time_Now E) files = Inr (d, m, s)"
    by (cases "createDataTarGz E (time_Now E) files") (auto simp: Package_def)
  with assms obtain c where c: "createControl E (time_Now E) s m info = Inr c"
    by (cases "createControl E (time_Now E) s m info") (auto simp: Package_def)
  from assms d c have "ar_items w = deb_items (time_Now E) c d"
    by (auto simp: Package_def Let_def ar_ops deb_items_def split: sum.splits option.splits)
  with d c show ?thesis by blast
qed

lemma Package_success:
  assumes "createDataTarGz E (time_Now E) files = Inr (d, m, s)"
    and "createControl E (time_Now E) s m info = Inr c"
    and "\<And>ws x. deb_err E ws x = None"
  shows "Package E info files = Inr \<lparr>ar_items = deb_items (time_Now E) c d\<rparr>"
  by (simp add: Package_def assms ar_ops deb_items_def Let_def)






lemma demo_files_result_at:
  "createDataTarGz demo_env now demo_files
     = Inr (''./usr/bin/f'' @ replicate 4096 (CHR ''x'') @ ''./aa'',
            ''d41d8cd98f00b204e9800998ecf8427e  usr/bin/f'' @ [nl] @
            ''d41d8cd98f00b204e9800998ecf8427e  a'' @ [nl], 4097)"
  using md5_of_nothing by (simp add: demo_eval demo_files_def)

lemma demo_control_result:
  "\<exists>c. createControl demo_env now s m info = Inr c"
  by (simp add: createControl_def controlTarWriter_cases Let_def demo_env_def)

lemma demo_Package_result:
  "\<exists>w. Package demo_env demo_info demo_files = Inr w"
proof -
  obtain c where "createControl demo_env (time_Now demo_env) 4097
      (''d41d8cd98f00b204e9800998ecf8427e  usr/bin/f'' @ [nl] @
       ''d41d8cd98f00b204e9800998ecf8427e  a'' @ [nl]) demo_info = Inr c"
    using demo_control_result by blast
  moreover have "deb_err demo_env ws x = None" for ws x
    by (simp add: demo_env_def)
  ultimately show ?thesis
    using Package_success [OF demo_files_result_at] by blast
qed

text \<open>
  Claim C7. A build that succeeds has written to \<open>deb\<close> the global header and then
  exactly three members in this order: \<open>debian-binary\<close> with the four bytes \<open>2.0\<close> and
  newline, \<open>control.tar.gz\<close> with the control archive, \<open>data.tar.gz\<close> with the data
  archive. Each member is a header carrying its name, the length of its bytes, the mode
  0644 and the build's timestamp, followed by the bytes. The build succeeds whenever both
  archives are built and no write to \<open>deb\<close> fails.
\<close>

theorem container_is_marker_control_data:
  "(Package E info files = Inr w \<longrightarrow>
      (\<exists>dataTarGz md5sums instSize controlTarGz.
          createDataTarGz E (time_Now E) files = Inr (dataTarGz, md5sums, instSize)
        \<and> createControl E (time_Now E) instSize md5sums info = Inr controlTarGz
        \<and> ar_items w =
            [ArGlobalHeader,
             ArHeader \<lparr>ar_Name = ''debian-binary'', ar_Size = 4,
                       ar_Mode = 6 * 8 ^ 2 + 4 * 8 + 4, ar_ModTime = time_Now E\<rparr>,
             ArData [CHR ''2'', CHR ''.'', CHR ''0'', CHR 0x0A],
             ArHeader \<lparr>ar_Name = ''control.tar.gz'', ar_Size = int (length controlTarGz),
                       ar_Mode = 6 * 8 ^ 2 + 4 * 8 + 4, ar_ModTime = time_Now E\<rparr>,
             ArData controlTarGz,
             ArHeader \<lparr>ar_Name = ''data.tar.gz'', ar_Size = int (length dataTarGz),
                       ar_Mode = 6 * 8 ^ 2 + 4 * 8 + 4, ar_ModTime = time_Now E\<rparr>,
             ArData dataTarGz]))
   \<and> (createDataTarGz E (time_Now E) files = Inr (d, m, s)
        \<and> createControl E (time_Now E) s m info = Inr c
        \<and> (\<forall>ws x. deb_err E ws x = None) \<longrightarrow>
      (\<exists>w. Package E info files = Inr w))"
proof (intro conjI impI)
  assume "Package E info files = Inr w"
  from Package_Inr [OF this] show "\<exists>dataTarGz md5sums instSize controlTarGz.
          createDataTarGz E (time_Now E) files = Inr (dataTarGz, md5sums, instSize)
        \<and> createControl E (time_Now E) instSize md5sums info = Inr controlTarGz
        \<and> ar_items w =
            [ArGlobalHeader,
             ArHeader \<lparr>ar_Name = ''debian-binary'', ar_Size = 4,
                       ar_Mode = 6 * 8 ^ 2 + 4 * 8 + 4, ar_ModTime = time_Now E\<rparr>,
             ArData [CHR ''2'', CHR ''.'', CHR ''0'', CHR 0x0A],
             ArHeader \<lparr>ar_Name = ''control.tar.gz'', ar_Size = int (length controlTarGz),
                       ar_Mode = 6 * 8 ^ 2 + 4 * 8 + 4, ar_ModTime = time_Now E\<rparr>,
             ArData controlTarGz,
             ArHeader \<lparr>ar_Name = ''data.tar.gz'', ar_Size = int (length dataTarGz),
                       ar_Mode = 6 * 8 ^ 2 + 4 * 8 + 4, ar_ModTime = time_Now E\<rparr>,
             ArData dataTarGz]"
    by (simp add: deb_items_def nl_def)
next
  assume "createDataTarGz E (time_Now E) files = Inr (d, m, s)
        \<and> createControl E (time_Now E) s m info = Inr c
        \<and> (\<forall>ws x. deb_err E ws x = None)"
  then show "\<exists>w. Package E info files = Inr w"
    using Package_success by blast
qed

theorem container_is_marker_control_data_witness:
  "\<exists>w c. Package demo_env demo_info demo_files = Inr w
     \<and> ar_items w =
        [ArGlobalHeader,
         ArHeader \<lparr>ar_Name = ''debian-binary'', ar_Size = 4, ar_Mode = 420,
                   ar_ModTime = 1500000000\<rparr>,
         ArData [CHR ''2'', CHR ''.'', CHR ''0'', CHR 0x0A],
         ArHeader \<lparr>ar_Name = ''control.tar.gz'', ar_Size = int (length c), ar_Mode = 420,
                   ar_ModTime = 1500000000\<rparr>,
         ArData c,
         ArHeader \<lparr>ar_Name = ''data.tar.gz'', ar_Size = 4111, ar_Mode = 420,
                   ar_ModTime = 1500000000\<rparr>,
         ArData (''./usr/bin/f'' @ replicate 4096 (CHR ''x'') @ ''./aa'')]"
proof -
  obtain w where w: "Package demo_env demo_info demo_files = Inr w"
    using demo_Package_result by blast
  have t: "time_Now demo_env = 1500000000" by (simp add: demo_env_def)
  from container_is_marker_control_data [where E = demo_env and info = demo_info
      and files = demo_files and w = w, THEN conjunct1, rule_format, OF w]
  show ?thesis
    using w by (auto simp: t demo_files_result_at)
qed

section \<open>Reproducibility\<close>















section \<open>The control record\<close>

lemma lines_of_not_Nil: "lines_of s \<noteq> []"
  by (induction s) (auto split: list.splits)

lemma lines_of_append_nl: "lines_of (a @ nl # b) = lines_of a @ lines_of b"
  by (induction a) (auto split: list.splits simp: lines_of_not_Nil)

lemma lines_of_one: "nl \<notin> set l \<Longrightarrow> lines_of l = [l]"
  by (induction l) auto

lemma line_between:
  "nl \<notin> set l \<Longrightarrow> l \<in> set (lines_of (a @ nl # l @ nl # b))"
  by (simp add: lines_of_append_nl lines_of_one)

lemma digit_not_nl: "n < 10 \<Longrightarrow> nl \<noteq> digit n"
proof -
  assume less: "n < 10"
  let ?ds = "take 10 ''0123456789abcdef''"
  have "digit n = ?ds ! n"
    using less by (simp only: digit_def nth_take)
  moreover have "?ds ! n \<in> set ?ds"
    using less by (intro nth_mem) simp
  moreover have "nl \<notin> set ?ds"
    by (simp add: nl_def)
  ultimately show "nl \<noteq> digit n"
    by auto
qed

lemma fmt_nat_no_nl: "nl \<notin> set (fmt_nat n)"
proof (induction n rule: fmt_nat.induct)
  case (1 n)
  show ?case
  proof (cases "n < 10")
    case True
    then show ?thesis by (simp add: fmt_nat.simps [of n] digit_not_nl)
  next
    case False
    have "n mod 10 < 10" by simp
    then have "nl \<noteq> digit (n mod 10)" by (rule digit_not_nl)
    with False 1 show ?thesis by (simp add: fmt_nat.simps [of n])
  qed
qed

lemma fmt_int_no_nl: "nl \<notin> set (fmt_int i)"
proof -
  have "nl \<noteq> CHR ''-''" by (simp add: nl_def)
  then show ?thesis by (simp add: fmt_int_def fmt_nat_no_nl)
qed

lemma go_div_1024:
  "go_div x 1024 = (if 0 \<le> x then x div 1024 else - ((- x) div 1024))"
  by (simp add: go_div_def sgn_if)

lemma installed_size_line:
  "(''Installed-Size: '' @ fmt_int (cd_InstalledSize d)) \<in> set (lines_of (controlTemplate d))"
proof -
  have e: "controlTemplate d =
      (''Package: '' @ Name (cd_Info d) @ [nl] @
       ''Version: '' @ Version (cd_Info d) @ [nl] @
       ''Section: '' @ Section (cd_Info d) @ [nl] @
       ''Priority: '' @ Priority (cd_Info d) @ [nl] @
       ''Architecture: '' @ Arch (cd_Info d) @ [nl] @
       ''Maintainer: '' @ Maintainer (cd_Info d) @ [nl] @
       ''Vendor: '' @ Vendor (cd_Info d))
      @ nl # (''Installed-Size: '' @ fmt_int (cd_InstalledSize d))
      @ nl # (''Replaces: '' @ Replaces (cd_Info d) @ [nl] @
       ''Provides: '' @ Provides (cd_Info d) @ [nl] @
       ''Depends: '' @ join (Depends (cd_Info d)) @ [nl] @
       ''Conflicts: '' @ join (Conflicts (cd_Info d)) @ [nl] @
       ''Homepage: '' @ Homepage (cd_Info d) @ [nl] @
       ''Description: '' @ Description (cd_Info d) @ [nl])"
    by (simp add: controlTemplate_def)
  have "nl \<notin> set ''Installed-Size: ''" by (simp add: nl_def)
  then have n: "nl \<notin> set (''Installed-Size: '' @ fmt_int (cd_InstalledSize d))"
    using fmt_int_no_nl by simp
  show ?thesis
    unfolding e by (rule line_between [OF n])
qed

lemma depends_line:
  assumes "nl \<notin> set (join (Depends (cd_Info d)))"
  shows "(''Depends: '' @ join (Depends (cd_Info d))) \<in> set (lines_of (controlTemplate d))"
proof -
  have e: "controlTemplate d =
      (''Package: '' @ Name (cd_Info d) @ [nl] @
       ''Version: '' @ Version (cd_Info d) @ [nl] @
       ''Section: '' @ Section (cd_Info d) @ [nl] @
       ''Priority: '' @ Priority (cd_Info d) @ [nl] @
       ''Architecture: '' @ Arch (cd_Info d) @ [nl] @
       ''Maintainer: '' @ Maintainer (cd_Info d) @ [nl] @
       ''Vendor: '' @ Vendor (cd_Info d) @ [nl] @
       ''Installed-Size: '' @ fmt_int (cd_InstalledSize d) @ [nl] @
       ''Replaces: '' @ Replaces (cd_Info d) @ [nl] @
       ''Provides: '' @ Provides (cd_Info d))
      @ nl # (''Depends: '' @ join (Depends (cd_Info d)))
      @ nl # (''Conflicts: '' @ join (Conflicts (cd_Info d)) @ [nl] @
       ''Homepage: '' @ Homepage (cd_Info d) @ [nl] @
       ''Description: '' @ Description (cd_Info d) @ [nl])"
    by (simp add: controlTemplate_def)
  have "nl \<notin> set ''Depends: ''" by (simp add: nl_def)
  then have n: "nl \<notin> set (''Depends: '' @ join (Depends (cd_Info d)))"
    using assms by simp
  show ?thesis
    unfolding e by (rule line_between [OF n])
qed

lemma conflicts_line:
  assumes "nl \<notin> set (join (Conflicts (cd_Info d)))"
  shows "(''Conflicts: '' @ join (Conflicts (cd_Info d))) \<in> set (lines_of (controlTemplate d))"
proof -
  have e: "controlTemplate d =
      (''Package: '' @ Name (cd_Info d) @ [nl] @
       ''Version: '' @ Version (cd_Info d) @ [nl] @
       ''Section: '' @ Section (cd_Info d) @ [nl] @
       ''Priority: '' @ Priority (cd_Info d) @ [nl] @
       ''Architecture: '' @ Arch (cd_Info d) @ [nl] @
       ''Maintainer: '' @ Maintainer (cd_Info d) @ [nl] @
       ''Vendor: '' @ Vendor (cd_Info d) @ [nl] @
       ''Installed-Size: '' @ fmt_int (cd_InstalledSize d) @ [nl] @
       ''Replaces: '' @ Replaces (cd_Info d) @ [nl] @
       ''Provides: '' @ Provides (cd_Info d) @ [nl] @
       ''Depends: '' @ join (Depends (cd_Info d)))
      @ nl # (''Conflicts: '' @ join (Conflicts (cd_Info d)))
      @ nl # (''Homepage: '' @ Homepage (cd_Info d) @ [nl] @
       ''Description: '' @ Description (cd_Info d) @ [nl])"
    by (simp add: controlTemplate_def)
  have "nl \<notin> set ''Conflicts: ''" by (simp add: nl_def)
  then have n: "nl \<notin> set (''Conflicts: '' @ join (Conflicts (cd_Info d)))"
    using assms by simp
  show ?thesis
    unfolding e by (rule line_between [OF n])
qed

text \<open>
  Claim C6. The first entry of the control archive is the control record, and one of its
  lines is \<open>Installed-Size: \<close> followed by the decimal form of the byte total divided by
  1024 and truncated towards zero. In a build that succeeds, the byte total is the one
  the data archive was built with, and the control archive with that line is a member
  of the container. For a single regular file of 4096 bytes the line is
  \<open>Installed-Size: 4\<close>.
\<close>

theorem installed_size_rendered_in_kib:
  "(controlTarWriter E now instSize md5sums info = Inr cw \<longrightarrow>
       tar_Name (te_hdr (hd (tw_entries cw))) = ''control''
     \<and> (''Installed-Size: ''
          @ fmt_int (if 0 \<le> instSize then instSize div 1024 else - ((- instSize) div 1024)))
         \<in> set (lines_of (te_body (hd (tw_entries cw)))))
   \<and> (Package E info files = Inr w \<longrightarrow>
       (\<exists>dataTarGz ledger total cw'.
           createDataTarGz E (time_Now E) files = Inr (dataTarGz, ledger, total)
         \<and> controlTarWriter E (time_Now E) total ledger info = Inr cw'
         \<and> ArData (targz_bytes E (tw_entries cw')) \<in> set (ar_items w)
         \<and> (''Installed-Size: ''
              @ fmt_int (if 0 \<le> total then total div 1024 else - ((- total) div 1024)))
             \<in> set (lines_of (te_body (hd (tw_entries cw'))))))"
proof (intro conjI impI)
  assume cw: "controlTarWriter E now instSize md5sums info = Inr cw"
  then show "tar_Name (te_hdr (hd (tw_entries cw))) = ''control''"
    by (auto simp: controlTarWriter_cases Let_def split: option.splits)
  show "(''Installed-Size: ''
          @ fmt_int (if 0 \<le> instSize then instSize div 1024 else - ((- instSize) div 1024)))
         \<in> set (lines_of (te_body (hd (tw_entries cw))))"
    using cw installed_size_line
      [of "\<lparr>cd_Info = info, cd_InstalledSize = go_div instSize 1024\<rparr>"]
    by (auto simp: controlTarWriter_cases Let_def go_div_1024 split: option.splits)
next
  assume "Package E info files = Inr w"
  from Package_Inr [OF this] obtain d m s c where
    d: "createDataTarGz E (time_Now E) files = Inr (d, m, s)"
    and c: "createControl E (time_Now E) s m info = Inr c"
    and w: "ar_items w = deb_items (time_Now E) c d"
    by blast
  from c obtain cw' where cw: "controlTarWriter E (time_Now E) s m info = Inr cw'"
    "c = targz_bytes E (tw_entries cw')"
    by (auto simp: createControl_Inr)
  have "ArData (targz_bytes E (tw_entries cw')) \<in> set (ar_items w)"
    by (simp add: w deb_items_def cw(2))
  moreover have "(''Installed-Size: ''
              @ fmt_int (if 0 \<le> s then s div 1024 else - ((- s) div 1024)))
             \<in> set (lines_of (te_body (hd (tw_entries cw'))))"
    using cw(1) installed_size_line
      [of "\<lparr>cd_Info = info, cd_InstalledSize = go_div s 1024\<rparr>"]
    by (auto simp: controlTarWriter_cases Let_def go_div_1024 split: option.splits)
  ultimately show "\<exists>dataTarGz ledger total cw'.
           createDataTarGz E (time_Now E) files = Inr (dataTarGz, ledger, total)
         \<and> controlTarWriter E (time_Now E) total ledger info = Inr cw'
         \<and> ArData (targz_bytes E (tw_entries cw')) \<in> set (ar_items w)
         \<and> (''Installed-Size: ''
              @ fmt_int (if 0 \<le> total then total div 1024 else - ((- total) div 1024)))
             \<in> set (lines_of (te_body (hd (tw_entries cw'))))"
    using d cw(1) by blast
qed

lemma fmt_int_4: "fmt_int 4 = ''4''"
  by (simp add: fmt_int_def fmt_nat.simps [of 4] digit_def)

lemma demo_single_result:
  "createDataTarGz demo_env now [\<lparr>Src = ''/tmp/f.txt'', Dst = ''./usr/bin/f''\<rparr>]
     = Inr (''./usr/bin/f'' @ replicate 4096 (CHR ''x''),
            ''d41d8cd98f00b204e9800998ecf8427e  usr/bin/f'' @ [nl], 4096)"
  using md5_of_nothing by (simp add: demo_eval)

theorem installed_size_rendered_in_kib_witness:
  "\<exists>w cw. Package demo_env demo_info [\<lparr>Src = ''/tmp/f.txt'', Dst = ''./usr/bin/f''\<rparr>] = Inr w
     \<and> createDataTarGz demo_env 1500000000 [\<lparr>Src = ''/tmp/f.txt'', Dst = ''./usr/bin/f''\<rparr>]
         = Inr (''./usr/bin/f'' @ replicate 4096 (CHR ''x''),
                ''d41d8cd98f00b204e9800998ecf8427e  usr/bin/f'' @ [nl], 4096)
     \<and> controlTarWriter demo_env 1500000000 4096
           (''d41d8cd98f00b204e9800998ecf8427e  usr/bin/f'' @ [nl]) demo_info = Inr cw
     \<and> ArData (targz_bytes demo_env (tw_entries cw)) \<in> set (ar_items w)
     \<and> ''Installed-Size: 4'' \<in> set (lines_of (te_body (hd (tw_entries cw))))"
proof -
  let ?files = "[\<lparr>Src = ''/tmp/f.txt'', Dst = ''./usr/bin/f''\<rparr>]"
  have t: "time_Now demo_env = 1500000000" by (simp add: demo_env_def)
  obtain c where "createControl demo_env (time_Now demo_env) 4096
      (''d41d8cd98f00b204e9800998ecf8427e  usr/bin/f'' @ [nl]) demo_info = Inr c"
    using demo_control_result by blast
  moreover have "deb_err demo_env ws x = None" for ws x
    by (simp add: demo_env_def)
  ultimately obtain w where w: "Package demo_env demo_info ?files = Inr w"
    using Package_success [OF demo_single_result] by blast
  from installed_size_rendered_in_kib [where E = demo_env and info = demo_info
      and files = ?files and w = w, THEN conjunct2, rule_format, OF w]
  obtain cw where
    "controlTarWriter demo_env 1500000000 4096
       (''d41d8cd98f00b204e9800998ecf8427e  usr/bin/f'' @ [nl]) demo_info = Inr cw"
    "ArData (targz_bytes demo_env (tw_entries cw)) \<in> set (ar_items w)"
    "''Installed-Size: 4'' \<in> set (lines_of (te_body (hd (tw_entries cw))))"
    unfolding t demo_single_result by (auto simp: fmt_int_4)
  with w demo_single_result [of 1500000000] show ?thesis
    apply (intro exI [of _ w])
    apply (intro exI [of _ cw])
    apply simp
    done
qed

lemma strings_Join_concat:
  "strings_Join strs sep = (case strs of [] \<Rightarrow> [] | x # xs \<Rightarrow> x @ concat (map (\<lambda>s. sep @ s) xs))"
  by (induction strs sep rule: strings_Join.induct) auto

lemma takeWhile_blank:
  "takeWhile (\<lambda>c. c \<in> set '' '') xs = replicate (length (takeWhile (\<lambda>c. c \<in> set '' '') xs)) (CHR '' '')"
proof -
  have "\<forall>y \<in> set (takeWhile (\<lambda>c. c \<in> set '' '') xs). y = CHR '' ''"
    by (auto dest: set_takeWhileD)
  then show ?thesis by (simp add: replicate_length_same)
qed

lemma rev_dropWhile_split:
  "t = rev (dropWhile P (rev t)) @ rev (takeWhile P (rev t))"
proof -
  have "rev (dropWhile P (rev t)) @ rev (takeWhile P (rev t))
          = rev (takeWhile P (rev t) @ dropWhile P (rev t))"
    by (simp only: rev_append)
  also have "\<dots> = rev (rev t)"
    by (simp only: takeWhile_dropWhile_id)
  finally show ?thesis by simp
qed

lemma strings_Trim_blank_decomp:
  "\<exists>k m. s = replicate k (CHR '' '') @ strings_Trim s '' '' @ replicate m (CHR '' '')"
proof -
  let ?P = "\<lambda>c. c \<in> set '' ''"
  let ?t = "dropWhile ?P s"
  obtain k where k: "takeWhile ?P s = replicate k (CHR '' '')"
    using takeWhile_blank by blast
  obtain m where "takeWhile ?P (rev ?t) = replicate m (CHR '' '')"
    using takeWhile_blank by blast
  then have m: "rev (takeWhile ?P (rev ?t)) = replicate m (CHR '' '')"
    by (simp only: rev_replicate)
  have "s = takeWhile ?P s @ ?t"
    by (simp only: takeWhile_dropWhile_id)
  also have "\<dots> = replicate k (CHR '' '') @ ?t"
    by (simp only: k)
  also have "?t = rev (dropWhile ?P (rev ?t)) @ rev (takeWhile ?P (rev ?t))"
    by (rule rev_dropWhile_split)
  also have "\<dots> = strings_Trim s '' '' @ replicate m (CHR '' '')"
    by (simp only: m strings_Trim_def)
  finally show ?thesis by blast
qed

lemma strings_Trim_ends:
  assumes "strings_Trim s '' '' \<noteq> []"
  shows "hd (strings_Trim s '' '') \<noteq> CHR '' ''" and "last (strings_Trim s '' '') \<noteq> CHR '' ''"
proof -
  let ?P = "\<lambda>c. c \<in> set '' ''"
  let ?t = "dropWhile ?P s"
  let ?u = "dropWhile ?P (rev ?t)"
  have r: "strings_Trim s '' '' = rev ?u" by (simp add: strings_Trim_def)
  with assms have u: "?u \<noteq> []" by simp
  have t: "?t \<noteq> []"
  proof
    assume e: "?t = []"
    have "?u = []" unfolding e by simp
    with u show False by (rule notE)
  qed
  have "\<not> ?P (hd ?u)" using u by (rule hd_dropWhile)
  then show "last (strings_Trim s '' '') \<noteq> CHR '' ''"
    using u by (simp add: r last_rev)
  have "rev ?t = takeWhile ?P (rev ?t) @ ?u"
    by (simp only: takeWhile_dropWhile_id)
  then have "last (rev ?t) = last (takeWhile ?P (rev ?t) @ ?u)"
    by (rule arg_cong)
  also have "\<dots> = last ?u" using u by (rule last_appendR)
  finally have "last (rev ?t) = last ?u" .
  then have "last ?u = hd ?t" using t by (simp add: last_rev)
  moreover have "\<not> ?P (hd ?t)" using t by (rule hd_dropWhile)
  ultimately show "hd (strings_Trim s '' '') \<noteq> CHR '' ''"
    using u by (simp add: r hd_rev)
qed

text \<open>
  Claim C9. The control record holds the line \<open>Depends: \<close> followed by the joined
  \<open>Depends\<close> elements, and the line \<open>Conflicts: \<close> followed by the joined \<open>Conflicts\<close>
  elements (each a single line when the joined text holds no newline). The joined text
  is the elements with \<open>, \<close> between them, less the blanks at its two ends: it neither
  starts nor ends with a blank. With \<open>Depends = [a, b]\<close> the line reads \<open>Depends: a, b\<close>;
  with no element it reads \<open>Depends: \<close>.
\<close>

theorem depends_and_conflicts_joined_on_one_line:
  "(nl \<notin> set (join (Depends info)) \<longrightarrow>
      (''Depends: '' @ join (Depends info))
        \<in> set (lines_of (controlTemplate \<lparr>cd_Info = info, cd_InstalledSize = n\<rparr>)))
   \<and> (nl \<notin> set (join (Conflicts info)) \<longrightarrow>
      (''Conflicts: '' @ join (Conflicts info))
        \<in> set (lines_of (controlTemplate \<lparr>cd_Info = info, cd_InstalledSize = n\<rparr>)))
   \<and> (\<exists>k m. (case strs of [] \<Rightarrow> [] | x # xs \<Rightarrow> x @ concat (map (\<lambda>s. '', '' @ s) xs))
             = replicate k (CHR '' '') @ join strs @ replicate m (CHR '' ''))
   \<and> (join strs \<noteq> [] \<longrightarrow> hd (join strs) \<noteq> CHR '' '' \<and> last (join strs) \<noteq> CHR '' '')"
proof (intro conjI impI)
  assume "nl \<notin> set (join (Depends info))"
  then show "(''Depends: '' @ join (Depends info))
        \<in> set (lines_of (controlTemplate \<lparr>cd_Info = info, cd_InstalledSize = n\<rparr>))"
    using depends_line [of "\<lparr>cd_Info = info, cd_InstalledSize = n\<rparr>"] by simp
next
  assume "nl \<notin> set (join (Conflicts info))"
  then show "(''Conflicts: '' @ join (Conflicts info))
        \<in> set (lines_of (controlTemplate \<lparr>cd_Info = info, cd_InstalledSize = n\<rparr>))"
    using conflicts_line [of "\<lparr>cd_Info = info, cd_InstalledSize = n\<rparr>"] by simp
next
  show "\<exists>k m. (case strs of [] \<Rightarrow> [] | x # xs \<Rightarrow> x @ concat (map (\<lambda>s. '', '' @ s) xs))
             = replicate k (CHR '' '') @ join strs @ replicate m (CHR '' '')"
    using strings_Trim_blank_decomp [of "strings_Join strs '', ''"]
    by (simp add: join_def strings_Join_concat [symmetric])
next
  assume "join strs \<noteq> []"
  then show "hd (join strs) \<noteq> CHR '' ''"
    unfolding join_def by (rule strings_Trim_ends)
next
  assume "join strs \<noteq> []"
  then show "last (join strs) \<noteq> CHR '' ''"
    unfolding join_def by (rule strings_Trim_ends)
qed

theorem depends_and_conflicts_joined_on_one_line_witness:
  "''Depends: a, b''
      \<in> set (lines_of (controlTemplate
          \<lparr>cd_Info = demo_info\<lparr>Depends := [''a'', ''b'']\<rparr>, cd_InstalledSize = 4\<rparr>))
   \<and> ''Depends: ''
      \<in> set (lines_of (controlTemplate
          \<lparr>cd_Info = demo_info\<lparr>Depends := []\<rparr>, cd_InstalledSize = 4\<rparr>))
   \<and> ''Conflicts: x, y  z''
      \<in> set (lines_of (controlTemplate
          \<lparr>cd_Info = demo_info\<lparr>Conflicts := ['' x'', ''y  z '']\<rparr>, cd_InstalledSize = 4\<rparr>))
   \<and> join [''a'', ''b''] = ''a, b'' \<and> join [] = []
   \<and> join ['' x'', ''y  z ''] = ''x, y  z''
   \<and> hd (join ['' x'', ''y  z '']) \<noteq> CHR '' '' \<and> last (join ['' x'', ''y  z '']) \<noteq> CHR '' ''"
proof -
  have j: "join [''a'', ''b''] = ''a, b''" "join [] = []" "join ['' x'', ''y  z ''] = ''x, y  z''"
    by (simp_all add: join_def strings_Trim_def)
  have 1: "nl \<notin> set (join (Depends (demo_info\<lparr>Depends := [''a'', ''b'']\<rparr>)))"
    by (simp add: j nl_def)
  have 2: "nl \<notin> set (join (Depends (demo_info\<lparr>Depends := []\<rparr>)))"
    by (simp add: j)
  have 3: "nl \<notin> set (join (Conflicts (demo_info\<lparr>Conflicts := ['' x'', ''y  z '']\<rparr>)))"
    by (simp add: j nl_def)
  have 4: "join ['' x'', ''y  z ''] \<noteq> []"
    by (simp add: j)
  have e: "hd (join ['' x'', ''y  z '']) \<noteq> CHR '' '' \<and> last (join ['' x'', ''y  z '']) \<noteq> CHR '' ''"
    using depends_and_conflicts_joined_on_one_line
        [where info = demo_info and n = 4 and strs = "['' x'', ''y  z '']"] 4
    by blast
  show ?thesis
    using depends_and_conflicts_joined_on_one_line
        [where info = "demo_info\<lparr>Depends := [''a'', ''b'']\<rparr>" and n = 4 and strs = "[]"]
      depends_and_conflicts_joined_on_one_line
        [where info = "demo_info\<lparr>Depends := []\<rparr>" and n = 4 and strs = "[]"]
      depends_and_conflicts_joined_on_one_line
        [where info = "demo_info\<lparr>Conflicts := ['' x'', ''y  z '']\<rparr>" and n = 4 and strs = "[]"]
      1 2 3 e
    by (simp add: j)
qed

end
